theory Spec2Isabelle
  imports Main
begin

section \<open>Library values used by main.go\<close>

subsection \<open>Characters and decimal digits\<close>

text \<open>
  Go strings are byte sequences; \<^typ>\<open>string\<close> is a list of 8-bit characters.
  \<open>isDigit\<close> is the test \<^verbatim>\<open>'0' <= c && c <= '9'\<close> of package time.
\<close>

definition isDigit :: "char \<Rightarrow> bool" where
  "isDigit c = (48 \<le> (of_char c :: nat) \<and> (of_char c :: nat) \<le> 57)"

definition digitVal :: "char \<Rightarrow> int" where
  "digitVal c = int (of_char c) - 48"

definition utod :: "nat \<Rightarrow> char" where
  "utod u = char_of (48 + u)"

definition decimal :: "string \<Rightarrow> int" where
  "decimal ds = foldl (\<lambda>acc c. acc * 10 + digitVal c) 0 ds"

definition dq :: char where
  "dq = CHR 0x22"

subsection \<open>time.Time\<close>

text \<open>
  A \<^verbatim>\<open>time.Time\<close> denotes an instant.  The model represents the instant by its
  calendar fields in UTC (proleptic Gregorian calendar) together with the nanoseconds
  elapsed since midnight.  Instants are ordered chronologically, which on this
  representation is the lexicographic order of the four fields (for dates, the order of
  the number of days since the start of year 1: \<open>dateLe_iff_dayNumber\<close> below).
  The zero value \<^verbatim>\<open>time.Time{}\<close> is January 1, year 1, 00:00:00 UTC.
\<close>

record Time =
  Year :: int
  Month :: int
  Day :: int
  DayNanos :: nat

definition zeroTime :: Time where
  "zeroTime = \<lparr>Year = 1, Month = 1, Day = 1, DayNanos = 0\<rparr>"

definition IsZero :: "Time \<Rightarrow> bool" where
  "IsZero t = (Year t = 1 \<and> Month t = 1 \<and> Day t = 1 \<and> DayNanos t = 0)"

definition After :: "Time \<Rightarrow> Time \<Rightarrow> bool" where
  "After t u =
     (Year u < Year t \<or> (Year u = Year t \<and>
       (Month u < Month t \<or> (Month u = Month t \<and>
         (Day u < Day t \<or> (Day u = Day t \<and> DayNanos u < DayNanos t))))))"

definition Before :: "Time \<Rightarrow> Time \<Rightarrow> bool" where
  "Before t u = After u t"

definition Equal :: "Time \<Rightarrow> Time \<Rightarrow> bool" where
  "Equal t u =
     (Year t = Year u \<and> Month t = Month u \<and> Day t = Day u \<and> DayNanos t = DayNanos u)"

subsection \<open>time.Parse and Time.Format for the layout 02-01-2006\<close>

text \<open>
  \<open>getnum\<close> reads a one- or two-digit number; with \<open>fixed\<close> it insists on two digits.
  \<open>skip\<close> consumes a literal prefix of the layout (the layout used here has no blanks).
\<close>

fun getnum :: "string \<Rightarrow> bool \<Rightarrow> (int \<times> string) option" where
  "getnum [] fixed = None"
| "getnum [a] fixed =
     (if \<not> isDigit a then None else if fixed then None else Some (digitVal a, []))"
| "getnum (a # b # rest) fixed =
     (if \<not> isDigit a then None
      else if \<not> isDigit b then (if fixed then None else Some (digitVal a, b # rest))
      else Some (digitVal a * 10 + digitVal b, rest))"

fun skip :: "string \<Rightarrow> string \<Rightarrow> string option" where
  "skip v [] = Some v"
| "skip [] (p # ps) = None"
| "skip (c # cs) (p # ps) = (if c = p then skip cs ps else None)"

text \<open>The four-digit year: at least four bytes, all of them digits.\<close>

definition parseYear :: "string \<Rightarrow> (int \<times> string) option" where
  "parseYear v =
     (if length v < 4 then None
      else if \<not> isDigit (hd v) then None
      else if list_all isDigit (take 4 v) then Some (decimal (take 4 v), drop 4 v)
      else None)"

definition isLeap :: "int \<Rightarrow> bool" where
  "isLeap y = (y mod 4 = 0 \<and> (y mod 100 \<noteq> 0 \<or> y mod 400 = 0))"

definition daysIn :: "int \<Rightarrow> int \<Rightarrow> int" where
  "daysIn m y =
     (if m = 2 then (if isLeap y then 29 else 28)
      else if m = 4 \<or> m = 6 \<or> m = 9 \<or> m = 11 then 30
      else 31)"

text \<open>
  \<^verbatim>\<open>time.Parse("02-01-2006", value)\<close>: two-digit day, dash, two-digit month in
  \<open>1..12\<close>, dash, four-digit year, nothing after it, and the day must exist in that month.
  The result is midnight UTC of that date; \<open>None\<close> stands for any parse error (the callers
  only test \<^verbatim>\<open>err != nil\<close>).
\<close>

definition time_Parse :: "string \<Rightarrow> Time option" where
  "time_Parse v =
     (case getnum v True of None \<Rightarrow> None | Some (d, v1) \<Rightarrow>
      (case skip v1 ''-'' of None \<Rightarrow> None | Some v2 \<Rightarrow>
       (case getnum v2 True of None \<Rightarrow> None | Some (m, v3) \<Rightarrow>
        if m \<le> 0 \<or> 12 < m then None else
        (case skip v3 ''-'' of None \<Rightarrow> None | Some v4 \<Rightarrow>
         (case parseYear v4 of None \<Rightarrow> None | Some (y, v5) \<Rightarrow>
          if v5 \<noteq> [] then None
          else if d < 1 \<or> daysIn m y < d then None
          else Some \<lparr>Year = y, Month = m, Day = d, DayNanos = 0\<rparr>)))))"

text \<open>
  \<open>appendInt\<close> writes an integer zero-padded to a width, as package time does: a sign for
  negative numbers, the fast paths for two and four digits, and the general case.
\<close>

fun digits :: "nat \<Rightarrow> string" where
  "digits n = (if n < 10 then [utod n] else digits (n div 10) @ [utod (n mod 10)])"

definition appendInt :: "int \<Rightarrow> nat \<Rightarrow> string" where
  "appendInt x width =
     (let u = nat \<bar>x\<bar>;
          sign = (if x < 0 then ''-'' else [])
      in if width = 2 \<and> u < 100 then sign @ [utod (u div 10), utod (u mod 10)]
         else if width = 4 \<and> u < 10000 then
           sign @ [utod (u div 1000), utod (u div 100 mod 10), utod (u div 10 mod 10), utod (u mod 10)]
         else sign @ replicate (width - length (digits u)) (CHR ''0'') @ digits u)"

definition time_Format :: "Time \<Rightarrow> string" where
  "time_Format t = appendInt (Day t) 2 @ ''-'' @ appendInt (Month t) 2 @ ''-'' @ appendInt (Year t) 4"

subsection \<open>strconv.Atoi\<close>

text \<open>
  \<^verbatim>\<open>strconv.Atoi\<close> on the 64-bit target the repository builds for (GOARCH=amd64): an
  optional sign, then at least one byte, all of them decimal digits, and a value that fits a
  signed 64-bit integer.  \<open>None\<close> stands for a syntax or range error.
\<close>

definition strconv_Atoi :: "string \<Rightarrow> int option" where
  "strconv_Atoi s =
     (let neg = (s \<noteq> [] \<and> hd s = CHR ''-'');
          ds = (if s \<noteq> [] \<and> (hd s = CHR ''-'' \<or> hd s = CHR ''+'') then tl s else s)
      in if ds = [] then None
         else if \<not> list_all isDigit ds then None
         else if neg then (if 2 ^ 63 < decimal ds then None else Some (- decimal ds))
         else (if 2 ^ 63 \<le> decimal ds then None else Some (decimal ds)))"

subsection \<open>JSON documents\<close>

text \<open>
  The bytes that \<^verbatim>\<open>json.Marshal\<close> produces are represented by the document they
  denote: an object is the list of its members in the order they are written.
\<close>

datatype json =
    JNull
  | JString string
  | JNumber int
  | JArray "json list"
  | JObject "(string \<times> json) list"

section \<open>The data of main.go\<close>

text \<open>
  \<open>Meta\<close> is the anonymous struct type of \<^verbatim>\<open>Fund.Meta\<close> and \<^verbatim>\<open>Response.Meta\<close>, \<open>NavItem\<close>
  that of the elements of \<^verbatim>\<open>Fund.Data\<close>.  The fields \<^verbatim>\<open>Meta\<close> and \<^verbatim>\<open>Data\<close> occur in two
  structs and carry the name of their struct here.  \<^verbatim>\<open>SchemeCode\<close> is a Go \<^verbatim>\<open>int\<close> that is only
  copied and compared with 0.
\<close>

record Meta =
  FundHouse :: string
  SchemeType :: string
  SchemeCategory :: string
  SchemeCode :: int
  SchemeName :: string

record NavItem =
  Item_Date :: string
  Item_Nav :: string

record Fund =
  Fund_Meta :: Meta
  Fund_Data :: "NavItem list"

record DataPoint =
  Date :: string
  Nav :: string

record Response =
  Resp_Meta :: Meta
  Period :: string
  Resp_Data :: "DataPoint list"

text \<open>
  The request carries the query parameters; indexing a Go map at a missing key gives the
  empty string.
\<close>

record APIGatewayProxyRequest =
  QueryStringParameters :: "string \<rightharpoonup> string"

definition param :: "APIGatewayProxyRequest \<Rightarrow> string \<Rightarrow> string" where
  "param request k = (case QueryStringParameters request k of None \<Rightarrow> [] | Some v \<Rightarrow> v)"

text \<open>
  A response body is either text assembled by \<^verbatim>\<open>fmt.Sprintf\<close> or the output of
  \<^verbatim>\<open>json.Marshal\<close>.
\<close>

datatype body = Text string | Encoded json

record APIGatewayProxyResponse =
  StatusCode :: int
  Body :: body
  Headers :: "string \<rightharpoonup> string"

text \<open>
  What the handler reads from outside: the clock (\<^verbatim>\<open>time.Now()\<close>) and the upstream
  API.  A GET of a URL ends in a transport error, in a body that does not decode, or in a
  decoded \<open>Fund\<close>; the first two carry the text of the Go error.
\<close>

datatype get_outcome = GetError string | DecodeError string | Decoded Fund

record World =
  clock :: Time
  httpGet :: "string \<Rightarrow> get_outcome"

section \<open>The functions of main.go\<close>

definition baseURL :: string where
  "baseURL = ''https://api.mfapi.in/mf/''"

definition emptyMeta :: Meta where
  "emptyMeta = \<lparr>FundHouse = [], SchemeType = [], SchemeCategory = [], SchemeCode = 0, SchemeName = []\<rparr>"

definition jsonHeaders :: "string \<rightharpoonup> string" where
  "jsonHeaders = [''Content-Type'' \<mapsto> ''application/json'']"

text \<open>\<^verbatim>\<open>fmt.Sprintf(`{"error": "%s"}`, message)\<close>: the message is pasted between the quotes.\<close>

definition errorBody :: "string \<Rightarrow> string" where
  "errorBody message = [CHR ''{'', dq] @ ''error'' @ [dq] @ '': '' @ [dq] @ message @ [dq, CHR ''}'']"

definition createErrorResponse :: "int \<Rightarrow> string \<Rightarrow> APIGatewayProxyResponse \<times> string option" where
  "createErrorResponse statusCode message =
     (\<lparr>StatusCode = statusCode, Body = Text (errorBody message), Headers = jsonHeaders\<rparr>, None)"

definition isValidInteger :: "string \<Rightarrow> bool" where
  "isValidInteger v = (case strconv_Atoi v of None \<Rightarrow> False | Some n \<Rightarrow> True)"

definition fetchFundData :: "World \<Rightarrow> string \<Rightarrow> string + Fund" where
  "fetchFundData w mutualFundID =
     (case httpGet w (baseURL @ mutualFundID) of
        GetError err \<Rightarrow> Inl (''error fetching data from API: '' @ err)
      | DecodeError err \<Rightarrow> Inl (''error decoding API response: '' @ err)
      | Decoded fund \<Rightarrow> Inr fund)"

definition parseDates :: "string \<Rightarrow> string \<Rightarrow> string + (Time \<times> Time)" where
  "parseDates startDate endDate =
     (case time_Parse startDate of
        None \<Rightarrow> Inl ''invalid start date format. use dd-mm-yyyy''
      | Some start \<Rightarrow>
         (case time_Parse endDate of
            None \<Rightarrow> Inl ''invalid end date format. use dd-mm-yyyy''
          | Some endT \<Rightarrow> Inr (start, endT)))"

definition validateAndParseDates :: "Time \<Rightarrow> string \<Rightarrow> string \<Rightarrow> string + (Time \<times> Time)" where
  "validateAndParseDates now startDate endDate =
     (if startDate \<noteq> [] \<and> endDate \<noteq> [] then
        (case parseDates startDate endDate of
           Inl err \<Rightarrow> Inl err
         | Inr (start, endT) \<Rightarrow>
            if After endT now then Inl ''end date cannot be in the future''
            else if After start endT then Inl ''start date cannot be after end date''
            else Inr (start, endT))
      else if startDate = [] \<and> endDate = [] then Inr (zeroTime, zeroTime)
      else Inl ''both start and end dates are required in the format dd-mm-yyyy'')"

text \<open>The loop of \<open>filterData\<close>, with the slice it appends to as accumulator.\<close>

fun filterLoop :: "NavItem list \<Rightarrow> Time \<Rightarrow> Time \<Rightarrow> DataPoint list \<Rightarrow> DataPoint list" where
  "filterLoop [] start endT filteredData = filteredData"
| "filterLoop (item # rest) start endT filteredData =
     (case time_Parse (Item_Date item) of
        None \<Rightarrow> filterLoop rest start endT filteredData
      | Some date \<Rightarrow>
         if (IsZero start \<and> IsZero endT) \<or>
            ((Equal date start \<or> After date start) \<and> (Equal date endT \<or> Before date endT))
         then filterLoop rest start endT
                (filteredData @ [\<lparr>Date = Item_Date item, Nav = Item_Nav item\<rparr>])
         else filterLoop rest start endT filteredData)"

definition filterData :: "NavItem list \<Rightarrow> Time \<Rightarrow> Time \<Rightarrow> DataPoint list" where
  "filterData data start endT = filterLoop data start endT []"

definition createSuccessResponse :: "Meta \<Rightarrow> DataPoint list \<Rightarrow> Time \<Rightarrow> Time \<Rightarrow> Response" where
  "createSuccessResponse meta data start endT =
     \<lparr>Resp_Meta = meta,
      Period = (if \<not> IsZero start \<and> \<not> IsZero endT
                then time_Format start @ '' to '' @ time_Format endT else []),
      Resp_Data = data\<rparr>"

text \<open>
  \<^verbatim>\<open>json.Marshal\<close> of a \<open>Response\<close>: the members in field order, \<open>period\<close> left out when
  the string is empty (\<^verbatim>\<open>omitempty\<close>), and a slice nothing was appended to (nil) written
  as \<open>null\<close>.  It has no failing case for this type; the option keeps the error branch of
  the handler.
\<close>

definition meta_json :: "Meta \<Rightarrow> json" where
  "meta_json m =
     JObject [(''fund_house'', JString (FundHouse m)),
              (''scheme_type'', JString (SchemeType m)),
              (''scheme_category'', JString (SchemeCategory m)),
              (''scheme_code'', JNumber (SchemeCode m)),
              (''scheme_name'', JString (SchemeName m))]"

definition point_json :: "DataPoint \<Rightarrow> json" where
  "point_json p = JObject [(''date'', JString (Date p)), (''nav'', JString (Nav p))]"

definition data_json :: "DataPoint list \<Rightarrow> json" where
  "data_json ps = (if ps = [] then JNull else JArray (map point_json ps))"

definition json_Marshal :: "Response \<Rightarrow> json option" where
  "json_Marshal r =
     Some (JObject
       ([(''meta'', meta_json (Resp_Meta r))] @
        (if Period r = [] then [] else [(''period'', JString (Period r))]) @
        [(''data'', data_json (Resp_Data r))]))"

definition Handler :: "World \<Rightarrow> APIGatewayProxyRequest \<Rightarrow> APIGatewayProxyResponse \<times> string option" where
  "Handler w request =
     (let mutualFundID = param request ''mutualFundID'';
          startDate = param request ''start'';
          endDate = param request ''end''
      in if mutualFundID = [] then
           createErrorResponse 400 ''mutualFundID query parameter is required''
         else if \<not> isValidInteger mutualFundID then
           createErrorResponse 400 ''mutualFundID must be an integer''
         else
           (case validateAndParseDates (clock w) startDate endDate of
              Inl err \<Rightarrow> createErrorResponse 400 err
            | Inr (start, endT) \<Rightarrow>
               (case fetchFundData w mutualFundID of
                  Inl err \<Rightarrow> createErrorResponse 500 err
                | Inr fund \<Rightarrow>
                   if Fund_Meta fund = emptyMeta then
                     createErrorResponse 400 ''Invalid mutualFundID''
                   else
                     (let filteredData = filterData (Fund_Data fund) start endT;
                          response = createSuccessResponse (Fund_Meta fund) filteredData start endT
                      in case json_Marshal response of
                           None \<Rightarrow> createErrorResponse 500 ''error creating JSON response''
                         | Some jsonResponse \<Rightarrow>
                            (\<lparr>StatusCode = 200, Body = Encoded jsonResponse,
                              Headers = jsonHeaders\<rparr>, None)))))"

section \<open>Notions of the specification\<close>

subsection \<open>Points, ranges and members of a document\<close>

text \<open>
  The output point of an upstream point, whether an upstream point has a date in the
  dd-mm-yyyy format, and whether that date lies in a range.  Calendar dates are compared by
  year, then month, then day.
\<close>

definition toDataPoint :: "NavItem \<Rightarrow> DataPoint" where
  "toDataPoint item = \<lparr>Date = Item_Date item, Nav = Item_Nav item\<rparr>"

definition parseable :: "NavItem \<Rightarrow> bool" where
  "parseable item = (case time_Parse (Item_Date item) of None \<Rightarrow> False | Some d \<Rightarrow> True)"

definition dateLe :: "Time \<Rightarrow> Time \<Rightarrow> bool" where
  "dateLe a b =
     (Year a < Year b \<or> (Year a = Year b \<and>
       (Month a < Month b \<or> (Month a = Month b \<and> Day a \<le> Day b))))"

text \<open>
  The number of days from 1 January of year 1 to a date of the proleptic Gregorian
  calendar, from the table of days before each month that package time uses.  On dates
  that exist, the order by year, month and day is the order of the day numbers.
\<close>

definition daysBeforeYear :: "int \<Rightarrow> int" where
  "daysBeforeYear y = 365 * (y - 1) + (y - 1) div 4 - (y - 1) div 100 + (y - 1) div 400"

definition daysBeforeMonth :: "int \<Rightarrow> int \<Rightarrow> int" where
  "daysBeforeMonth m y =
     (if m = 1 then 0 else if m = 2 then 31
      else (if isLeap y then 1 else 0) +
        (if m = 3 then 59 else if m = 4 then 90 else if m = 5 then 120 else if m = 6 then 151
         else if m = 7 then 181 else if m = 8 then 212 else if m = 9 then 243
         else if m = 10 then 273 else if m = 11 then 304 else if m = 12 then 334 else 365))"

definition validDate :: "Time \<Rightarrow> bool" where
  "validDate t =
     (1 \<le> Month t \<and> Month t \<le> 12 \<and> 1 \<le> Day t \<and> Day t \<le> daysIn (Month t) (Year t))"

definition dayNumber :: "Time \<Rightarrow> int" where
  "dayNumber t = daysBeforeYear (Year t) + daysBeforeMonth (Month t) (Year t) + (Day t - 1)"

definition inRange :: "Time \<Rightarrow> Time \<Rightarrow> NavItem \<Rightarrow> bool" where
  "inRange start endT item =
     (case time_Parse (Item_Date item) of
        None \<Rightarrow> False
      | Some d \<Rightarrow> dateLe start d \<and> dateLe d endT)"

definition json_member :: "string \<Rightarrow> json \<Rightarrow> json option" where
  "json_member k j = (case j of JObject ms \<Rightarrow> map_of ms k | _ \<Rightarrow> None)"

subsection \<open>The pipeline as an ordered list of gates\<close>

text \<open>
  Each gate either passes or fails with a status code and a message.  A pipeline over an
  order of gates answers with the failure of the first gate that fails, and filters and
  builds the success response when none does.
\<close>

datatype gate = ParserGate | RangeGate | FetcherGate | MetadataGate

fun gate_failure :: "World \<Rightarrow> APIGatewayProxyRequest \<Rightarrow> gate \<Rightarrow> (int \<times> string) option" where
  "gate_failure w r ParserGate =
     (if param r ''mutualFundID'' = [] then
        Some (400, ''mutualFundID query parameter is required'')
      else if \<not> isValidInteger (param r ''mutualFundID'') then
        Some (400, ''mutualFundID must be an integer'')
      else None)"
| "gate_failure w r RangeGate =
     (case validateAndParseDates (clock w) (param r ''start'') (param r ''end'') of
        Inl err \<Rightarrow> Some (400, err)
      | Inr p \<Rightarrow> None)"
| "gate_failure w r FetcherGate =
     (case fetchFundData w (param r ''mutualFundID'') of
        Inl err \<Rightarrow> Some (500, err)
      | Inr fund \<Rightarrow> None)"
| "gate_failure w r MetadataGate =
     (case fetchFundData w (param r ''mutualFundID'') of
        Inl err \<Rightarrow> None
      | Inr fund \<Rightarrow>
         if Fund_Meta fund = emptyMeta then Some (400, ''Invalid mutualFundID'') else None)"

fun first_failure :: "World \<Rightarrow> APIGatewayProxyRequest \<Rightarrow> gate list \<Rightarrow> (int \<times> string) option" where
  "first_failure w r [] = None"
| "first_failure w r (g # gs) =
     (case gate_failure w r g of Some e \<Rightarrow> Some e | None \<Rightarrow> first_failure w r gs)"

definition filter_and_build :: "World \<Rightarrow> APIGatewayProxyRequest \<Rightarrow> APIGatewayProxyResponse \<times> string option" where
  "filter_and_build w r =
     (case validateAndParseDates (clock w) (param r ''start'') (param r ''end'') of
        Inl err \<Rightarrow> createErrorResponse 400 err
      | Inr (start, endT) \<Rightarrow>
         (case fetchFundData w (param r ''mutualFundID'') of
            Inl err \<Rightarrow> createErrorResponse 500 err
          | Inr fund \<Rightarrow>
             (case json_Marshal (createSuccessResponse (Fund_Meta fund)
                     (filterData (Fund_Data fund) start endT) start endT) of
                None \<Rightarrow> createErrorResponse 500 ''error creating JSON response''
              | Some j \<Rightarrow> (\<lparr>StatusCode = 200, Body = Encoded j, Headers = jsonHeaders\<rparr>, None))))"

definition pipeline :: "gate list \<Rightarrow> World \<Rightarrow> APIGatewayProxyRequest \<Rightarrow> APIGatewayProxyResponse \<times> string option" where
  "pipeline order w r =
     (case first_failure w r order of
        Some (code, msg) \<Rightarrow> createErrorResponse code msg
      | None \<Rightarrow> filter_and_build w r)"

text \<open>The order the specification states, and the order of the statements of \<open>Handler\<close>.\<close>

definition stated_order :: "gate list" where
  "stated_order = [ParserGate, FetcherGate, MetadataGate, RangeGate]"

definition source_order :: "gate list" where
  "source_order = [ParserGate, RangeGate, FetcherGate, MetadataGate]"

subsection \<open>Well-formed error documents\<close>

text \<open>
  A recogniser for JSON texts of the shape \<open>{"error": "..."}\<close>, with blanks allowed
  between the tokens.  \<open>json_string_tail\<close> reads a string literal after its opening quote
  and returns what follows the closing quote: a quote ends the literal, control
  characters are not allowed, and a backslash starts one of the escapes of JSON.
  \<open>json_error_document\<close> returns the text between the quotes of the error member.
\<close>

definition json_ws :: "char \<Rightarrow> bool" where
  "json_ws c = (c = CHR 0x20 \<or> c = CHR 0x09 \<or> c = CHR 0x0A \<or> c = CHR 0x0D)"

definition isHex :: "char \<Rightarrow> bool" where
  "isHex c = (isDigit c \<or> c \<in> set ''abcdefABCDEF'')"

definition backslash :: char where
  "backslash = CHR 0x5C"

datatype smode = Plain | Escaped | Hex nat

fun json_string_tail :: "smode \<Rightarrow> string \<Rightarrow> string option" where
  "json_string_tail m [] = None"
| "json_string_tail Plain (c # cs) =
     (if c = dq then Some cs
      else if (of_char c :: nat) < 32 then None
      else if c = backslash then json_string_tail Escaped cs
      else json_string_tail Plain cs)"
| "json_string_tail Escaped (c # cs) =
     (if c = dq \<or> c = backslash \<or> c \<in> set ''/bfnrt'' then json_string_tail Plain cs
      else if c = CHR ''u'' then json_string_tail (Hex 4) cs
      else None)"
| "json_string_tail (Hex n) (c # cs) =
     (if \<not> isHex c then None
      else if n \<le> 1 then json_string_tail Plain cs
      else json_string_tail (Hex (n - 1)) cs)"

fun expect :: "string \<Rightarrow> string \<Rightarrow> string option" where
  "expect [] s = Some s"
| "expect (p # ps) [] = None"
| "expect (p # ps) (c # cs) = (if c = p then expect ps cs else None)"

definition token :: "string \<Rightarrow> string \<Rightarrow> string option" where
  "token t s = expect t (dropWhile json_ws s)"

definition json_error_document :: "string \<Rightarrow> string option" where
  "json_error_document b =
     (case token ''{'' b of None \<Rightarrow> None | Some r1 \<Rightarrow>
      (case token (dq # ''error'' @ [dq]) r1 of None \<Rightarrow> None | Some r2 \<Rightarrow>
       (case token '':'' r2 of None \<Rightarrow> None | Some r3 \<Rightarrow>
        (case token [dq] r3 of None \<Rightarrow> None | Some r4 \<Rightarrow>
         (case json_string_tail Plain r4 of None \<Rightarrow> None | Some r5 \<Rightarrow>
          (case token ''}'' r5 of None \<Rightarrow> None | Some r6 \<Rightarrow>
           if dropWhile json_ws r6 = [] then Some (take (length r4 - length r5 - 1) r4)
           else None))))))"

text \<open>A message that needs no escaping inside a JSON string literal.\<close>

definition plain_message :: "string \<Rightarrow> bool" where
  "plain_message m = list_all (\<lambda>c. c \<noteq> dq \<and> c \<noteq> backslash \<and> 32 \<le> (of_char c :: nat)) m"

subsection \<open>The test of the filter loop\<close>

text \<open>The condition under which one iteration of the loop of \<open>filterData\<close> appends its item.\<close>

definition kept :: "Time \<Rightarrow> Time \<Rightarrow> NavItem \<Rightarrow> bool" where
  "kept start endT item =
     (case time_Parse (Item_Date item) of
        None \<Rightarrow> False
      | Some date \<Rightarrow>
         (IsZero start \<and> IsZero endT) \<or>
         ((Equal date start \<or> After date start) \<and> (Equal date endT \<or> Before date endT)))"

subsection \<open>Concrete requests and upstream behaviours\<close>

definition requestOf :: "(string \<times> string) list \<Rightarrow> APIGatewayProxyRequest" where
  "requestOf kvs = \<lparr>QueryStringParameters = map_of kvs\<rparr>"

definition query :: "string \<Rightarrow> string \<Rightarrow> string \<Rightarrow> APIGatewayProxyRequest" where
  "query fid startDate endDate =
     requestOf [(''mutualFundID'', fid), (''start'', startDate), (''end'', endDate)]"

definition noon :: Time where
  "noon = \<lparr>Year = 2024, Month = 6, Day = 15, DayNanos = 43200000000000\<rparr>"

text \<open>
  An upstream that cannot be reached: the \<^verbatim>\<open>*url.Error\<close> of \<^verbatim>\<open>http.Get\<close> prints the
  operation, the quoted URL and the cause.
\<close>

definition unreachable :: World where
  "unreachable =
     \<lparr>clock = noon,
      httpGet = (\<lambda>url. GetError (''Get '' @ [dq] @ url @ [dq] @ '': EOF''))\<rparr>"

text \<open>The fund of the example of the specification, with one more point whose date is noise.\<close>

definition exampleMeta :: Meta where
  "exampleMeta =
     \<lparr>FundHouse = ''House'', SchemeType = ''Open Ended'', SchemeCategory = ''Equity'',
      SchemeCode = 119598, SchemeName = ''Scheme''\<rparr>"

definition exampleFund :: Fund where
  "exampleFund =
     \<lparr>Fund_Meta = exampleMeta,
      Fund_Data =
        [\<lparr>Item_Date = ''15-01-2023'', Item_Nav = ''10.5''\<rparr>,
         \<lparr>Item_Date = ''28-02-2023'', Item_Nav = ''11.0''\<rparr>,
         \<lparr>Item_Date = ''2023-01-20'', Item_Nav = ''10.7''\<rparr>,
         \<lparr>Item_Date = ''02-01-2023'', Item_Nav = ''10.1''\<rparr>]\<rparr>"

text \<open>An upstream that knows fund 119598 and answers with empty metadata for any other id.\<close>

definition serving :: World where
  "serving =
     \<lparr>clock = noon,
      httpGet = (\<lambda>url. if url = baseURL @ ''119598'' then Decoded exampleFund
                        else Decoded \<lparr>Fund_Meta = emptyMeta, Fund_Data = []\<rparr>)\<rparr>"

section \<open>Parsing and formatting dates\<close>

lemma utod_digitVal: "isDigit c \<Longrightarrow> utod (nat (digitVal c)) = c"
proof -
  assume "isDigit c"
  then have "48 + nat (int (of_char c) - 48) = (of_char c :: nat)"
    unfolding isDigit_def by linarith
  then show ?thesis
    by (simp add: digitVal_def utod_def)
qed

lemma digitVal_range: "isDigit c \<Longrightarrow> 0 \<le> digitVal c \<and> digitVal c \<le> 9"
  by (auto simp: isDigit_def digitVal_def)

lemma getnum_fixed_SomeD:
  "getnum v True = Some (n, r) \<Longrightarrow> \<exists>a b. v = a # b # r \<and> isDigit a \<and> isDigit b \<and> n = digitVal a * 10 + digitVal b"
  by (cases "(v, True)" rule: getnum.cases) (auto split: if_splits)

lemma skip_dash_SomeD: "skip v ''-'' = Some r \<Longrightarrow> v = CHR ''-'' # r"
  by (cases v) (auto split: if_splits)

lemma parseYear_SomeD:
  "parseYear v = Some (y, r) \<Longrightarrow>
     \<exists>a b c d. v = a # b # c # d # r \<and> isDigit a \<and> isDigit b \<and> isDigit c \<and> isDigit d \<and>
       y = ((digitVal a * 10 + digitVal b) * 10 + digitVal c) * 10 + digitVal d"
  apply (cases v; simp add: parseYear_def split: if_splits)
  subgoal for a v1
    apply (cases v1; simp)
    subgoal for b v2
      apply (cases v2; simp)
      subgoal for c v3
        apply (cases v3; simp add: decimal_def)
        done
      done
    done
  done

lemma appendInt2: "isDigit a \<Longrightarrow> isDigit b \<Longrightarrow> appendInt (digitVal a * 10 + digitVal b) 2 = [a, b]"
proof -
  assume a: "isDigit a" and b: "isDigit b"
  define x where "x = nat (digitVal a)"
  define y where "y = nat (digitVal b)"
  have xa: "digitVal a = int x" "x \<le> 9" and yb: "digitVal b = int y" "y \<le> 9"
    using digitVal_range[OF a] digitVal_range[OF b] by (auto simp: x_def y_def)
  have n: "nat \<bar>int x * 10 + int y\<bar> = x * 10 + y"
    by (simp add: nat_add_distrib nat_mult_distrib)
  have "appendInt (int x * 10 + int y) 2 = [utod x, utod y]"
    using xa(2) yb(2) unfolding appendInt_def Let_def n by simp
  then show ?thesis
    using utod_digitVal[OF a] utod_digitVal[OF b] by (simp add: xa yb x_def[symmetric] y_def[symmetric])
qed

lemma divmod10: "r \<le> 9 \<Longrightarrow> (q * 10 + r) div 10 = (q::nat) \<and> (q * 10 + r) mod 10 = r"
  by simp

lemma appendInt4:
  assumes "isDigit a" "isDigit b" "isDigit c" "isDigit d"
  shows "appendInt (((digitVal a * 10 + digitVal b) * 10 + digitVal c) * 10 + digitVal d) 4 = [a, b, c, d]"
proof -
  define x where "x = nat (digitVal a)"
  define y where "y = nat (digitVal b)"
  define z where "z = nat (digitVal c)"
  define u where "u = nat (digitVal d)"
  have v: "digitVal a = int x" "x \<le> 9" "digitVal b = int y" "y \<le> 9"
     "digitVal c = int z" "z \<le> 9" "digitVal d = int u" "u \<le> 9"
    using assms[THEN digitVal_range] by (auto simp: x_def y_def z_def u_def)
  define n where "n = ((x * 10 + y) * 10 + z) * 10 + u"
  have n: "nat \<bar>((int x * 10 + int y) * 10 + int z) * 10 + int u\<bar> = n"
    unfolding n_def by (simp add: nat_add_distrib nat_mult_distrib)
  have d1: "n div 10 = (x * 10 + y) * 10 + z" and m1: "n mod 10 = u"
    unfolding n_def using divmod10[OF v(8), of "(x * 10 + y) * 10 + z"] by blast+
  have e2: "n div 100 = n div 10 div 10"
    using div_mult2_eq[of n 10 10] by simp
  have d2: "n div 100 = x * 10 + y" and m2: "n div 10 mod 10 = z"
    unfolding e2 d1 using divmod10[OF v(6), of "x * 10 + y"] by blast+
  have e3: "n div 1000 = n div 100 div 10"
    using div_mult2_eq[of n 100 10] by simp
  have d3: "n div 1000 = x" and m3: "n div 100 mod 10 = y"
    unfolding e3 d2 using divmod10[OF v(4), of x] by blast+
  have lt: "n < 10000"
    using v(2,4,6,8) unfolding n_def by simp
  note ds = lt d3 m3 m2 m1
  have "appendInt (((int x * 10 + int y) * 10 + int z) * 10 + int u) 4 = [utod x, utod y, utod z, utod u]"
    unfolding appendInt_def Let_def n using ds by simp
  then show ?thesis
    using assms[THEN utod_digitVal]
    by (simp add: v x_def[symmetric] y_def[symmetric] z_def[symmetric] u_def[symmetric])
qed

text \<open>What a successful parse says about its input: ten bytes, digits around two dashes.\<close>

lemma time_Parse_SomeD:
  assumes "time_Parse v = Some t"
  shows "\<exists>a b c d e f g h. v = [a, b, CHR ''-'', c, d, CHR ''-'', e, f, g, h] \<and>
     isDigit a \<and> isDigit b \<and> isDigit c \<and> isDigit d \<and> isDigit e \<and> isDigit f \<and> isDigit g \<and> isDigit h \<and>
     Day t = digitVal a * 10 + digitVal b \<and> Month t = digitVal c * 10 + digitVal d \<and>
     Year t = ((digitVal e * 10 + digitVal f) * 10 + digitVal g) * 10 + digitVal h \<and>
     DayNanos t = 0 \<and> 1 \<le> Month t \<and> Month t \<le> 12 \<and> 1 \<le> Day t \<and> Day t \<le> daysIn (Month t) (Year t)"
proof -
  from assms obtain d v1 where g1: "getnum v True = Some (d, v1)"
    unfolding time_Parse_def by (auto split: option.splits)
  from assms g1 obtain v2 where s1: "skip v1 ''-'' = Some v2"
    unfolding time_Parse_def by (auto split: option.splits)
  from assms g1 s1 obtain m v3 where g2: "getnum v2 True = Some (m, v3)"
    unfolding time_Parse_def by (auto split: option.splits)
  from assms g1 s1 g2 have mr: "1 \<le> m" "m \<le> 12"
    unfolding time_Parse_def by (auto split: option.splits if_splits)
  from assms g1 s1 g2 mr obtain v4 where s2: "skip v3 ''-'' = Some v4"
    unfolding time_Parse_def by (auto split: option.splits if_splits)
  from assms g1 s1 g2 mr s2 obtain y v5 where py: "parseYear v4 = Some (y, v5)"
    unfolding time_Parse_def by (auto split: option.splits if_splits)
  from assms g1 s1 g2 mr s2 py have rest: "v5 = []" "1 \<le> d" "d \<le> daysIn m y"
    and t: "t = \<lparr>Year = y, Month = m, Day = d, DayNanos = 0\<rparr>"
    unfolding time_Parse_def by (auto split: option.splits if_splits)
  from getnum_fixed_SomeD[OF g1] obtain a b where
    1: "v = a # b # v1" "isDigit a" "isDigit b" "d = digitVal a * 10 + digitVal b" by blast
  from getnum_fixed_SomeD[OF g2] obtain c e where
    2: "v2 = c # e # v3" "isDigit c" "isDigit e" "m = digitVal c * 10 + digitVal e" by blast
  from parseYear_SomeD[OF py] obtain f g h i where
    3: "v4 = f # g # h # i # v5" "isDigit f" "isDigit g" "isDigit h" "isDigit i"
       "y = ((digitVal f * 10 + digitVal g) * 10 + digitVal h) * 10 + digitVal i" by blast
  have "v = [a, b, CHR ''-'', c, e, CHR ''-'', f, g, h, i]"
    using 1(1) 2(1) 3(1) skip_dash_SomeD[OF s1] skip_dash_SomeD[OF s2] rest(1) by simp
  then show ?thesis
    using 1 2 3 mr rest t by simp
qed

text \<open>Formatting a parsed date gives back the text that was parsed.\<close>

lemma time_Format_Parse:
  assumes "time_Parse v = Some t"
  shows "time_Format t = v"
proof -
  from time_Parse_SomeD[OF assms] obtain a b c d e f g h where
    v: "v = [a, b, CHR ''-'', c, d, CHR ''-'', e, f, g, h]" and
    dg: "isDigit a" "isDigit b" "isDigit c" "isDigit d" "isDigit e" "isDigit f" "isDigit g" "isDigit h" and
    D: "Day t = digitVal a * 10 + digitVal b" and
    M: "Month t = digitVal c * 10 + digitVal d" and
    Y: "Year t = ((digitVal e * 10 + digitVal f) * 10 + digitVal g) * 10 + digitVal h"
    by blast
  have 1: "appendInt (Day t) 2 = [a, b]"
    unfolding D by (rule appendInt2) fact+
  have 2: "appendInt (Month t) 2 = [c, d]"
    unfolding M by (rule appendInt2) fact+
  have 3: "appendInt (Year t) 4 = [e, f, g, h]"
    unfolding Y by (rule appendInt4) fact+
  show ?thesis
    unfolding time_Format_def 1 2 3 v by simp
qed

lemma time_Parse_midnight: "time_Parse v = Some t \<Longrightarrow> DayNanos t = 0"
  by (drule time_Parse_SomeD) auto

lemma time_Parse_nonempty: "time_Parse v = Some t \<Longrightarrow> v \<noteq> []"
  by (auto simp: time_Parse_def)

subsection \<open>The dates used in the examples\<close>

lemma parse_01_01_0001: "time_Parse ''01-01-0001'' = Some zeroTime"
  by (simp add: time_Parse_def parseYear_def isDigit_def digitVal_def decimal_def daysIn_def isLeap_def zeroTime_def)

lemma parse_01_01_2023: "time_Parse ''01-01-2023'' = Some \<lparr>Year = 2023, Month = 1, Day = 1, DayNanos = 0\<rparr>"
  by (simp add: time_Parse_def parseYear_def isDigit_def digitVal_def decimal_def daysIn_def isLeap_def)

lemma parse_02_01_2023: "time_Parse ''02-01-2023'' = Some \<lparr>Year = 2023, Month = 1, Day = 2, DayNanos = 0\<rparr>"
  by (simp add: time_Parse_def parseYear_def isDigit_def digitVal_def decimal_def daysIn_def isLeap_def)

lemma parse_15_01_2023: "time_Parse ''15-01-2023'' = Some \<lparr>Year = 2023, Month = 1, Day = 15, DayNanos = 0\<rparr>"
  by (simp add: time_Parse_def parseYear_def isDigit_def digitVal_def decimal_def daysIn_def isLeap_def)

lemma parse_31_01_2023: "time_Parse ''31-01-2023'' = Some \<lparr>Year = 2023, Month = 1, Day = 31, DayNanos = 0\<rparr>"
  by (simp add: time_Parse_def parseYear_def isDigit_def digitVal_def decimal_def daysIn_def isLeap_def)

lemma parse_28_02_2023: "time_Parse ''28-02-2023'' = Some \<lparr>Year = 2023, Month = 2, Day = 28, DayNanos = 0\<rparr>"
  by (simp add: time_Parse_def parseYear_def isDigit_def digitVal_def decimal_def daysIn_def isLeap_def)

lemma parse_31_12_2024: "time_Parse ''31-12-2024'' = Some \<lparr>Year = 2024, Month = 12, Day = 31, DayNanos = 0\<rparr>"
  by (simp add: time_Parse_def parseYear_def isDigit_def digitVal_def decimal_def daysIn_def isLeap_def)

lemma parse_iso: "time_Parse ''2023-01-20'' = None"
  by (simp add: time_Parse_def parseYear_def isDigit_def digitVal_def decimal_def daysIn_def isLeap_def)

lemma parse_tomorrow: "time_Parse ''tomorrow'' = None"
  by (simp add: time_Parse_def isDigit_def)

lemmas example_parses = parse_15_01_2023 parse_28_02_2023 parse_02_01_2023 parse_iso

lemma time_Format_zeroTime: "time_Format zeroTime = ''01-01-0001''"
  by (rule time_Format_Parse[OF parse_01_01_0001])

lemma IsZero_zeroTime: "IsZero zeroTime"
  by (simp add: IsZero_def zeroTime_def)

lemma IsZero_iff: "IsZero t = (t = zeroTime)"
  by (cases t) (auto simp: IsZero_def zeroTime_def)

lemma IsZero_parsed: "time_Parse v = Some t \<Longrightarrow> IsZero t = (v = ''01-01-0001'')"
  using time_Format_Parse[of v t] time_Format_zeroTime parse_01_01_0001
  by (auto simp: IsZero_iff)

section \<open>The calendar\<close>

lemma mod_400_100: "(y::int) mod 400 = 0 \<Longrightarrow> y mod 100 = 0"
proof -
  assume "y mod 400 = 0"
  then have "400 dvd y" by (simp add: dvd_eq_mod_eq_0)
  moreover have "(100::int) dvd 400" by simp
  ultimately have "100 dvd y" by (rule dvd_trans[rotated])
  then show ?thesis by (simp add: dvd_eq_mod_eq_0)
qed

lemma div_step:
  assumes k: "0 < k"
  shows "(y::int) div k = (y - 1) div k + (if y mod k = 0 then 1 else 0)"
proof (cases "y mod k = 0")
  case True
  then have "k dvd y" by (simp add: dvd_eq_mod_eq_0)
  then obtain q where q: "y = k * q" by (auto simp: dvd_def)
  have e: "k * q - 1 = (k - 1) + (q - 1) * k" by (simp add: algebra_simps)
  have "(k * q - 1) div k = ((k - 1) + (q - 1) * k) div k" by (subst e) (rule refl)
  also have "\<dots> = (k - 1) div k + (q - 1)"
    using k by (subst div_mult_self1) simp_all
  also have "(k - 1) div k = 0" using k by (simp add: div_pos_pos_trivial)
  finally show ?thesis using True q k by simp
next
  case False
  define r where "r = y mod k"
  have "0 \<le> r" "r < k" using k by (simp_all add: r_def)
  then have r: "0 < r" "r < k" using False by (simp_all add: r_def)
  have y: "y = r + (y div k) * k" by (simp add: r_def)
  have e: "y - 1 = (r - 1) + (y div k) * k" using y by simp
  have "(y - 1) div k = ((r - 1) + (y div k) * k) div k" by (subst e) (rule refl)
  also have "\<dots> = (r - 1) div k + y div k"
    using k by (subst div_mult_self1) simp_all
  also have "(r - 1) div k = 0" using r by (simp add: div_pos_pos_trivial)
  finally show ?thesis using False by simp
qed

lemma mod_100_4: "(y::int) mod 100 = 0 \<Longrightarrow> y mod 4 = 0"
proof -
  assume "y mod 100 = 0"
  then have "100 dvd y" by (simp add: dvd_eq_mod_eq_0)
  moreover have "(4::int) dvd 100" by simp
  ultimately have "4 dvd y" by (rule dvd_trans[rotated])
  then show ?thesis by (simp add: dvd_eq_mod_eq_0)
qed

lemma year_step: "daysBeforeYear (y + 1) = daysBeforeYear y + (if isLeap y then 366 else 365)"
proof -
  define a where "a = (y - 1) div 4"
  define b where "b = (y - 1) div 100"
  define c where "c = (y - 1) div 400"
  define p where "p = (y mod 4 = 0)"
  define q where "q = (y mod 100 = 0)"
  define r where "r = (y mod 400 = 0)"
  have d: "y div 4 = a + (if p then 1 else 0)" "y div 100 = b + (if q then 1 else 0)"
      "y div 400 = c + (if r then 1 else 0)"
    unfolding a_def b_def c_def p_def q_def r_def
    by (rule div_step, simp)+
  have i: "r \<longrightarrow> q" "q \<longrightarrow> p"
    unfolding p_def q_def r_def using mod_400_100[of y] mod_100_4[of y] by blast+
  have l: "isLeap y = (p \<and> (\<not> q \<or> r))"
    by (simp add: isLeap_def p_def q_def r_def)
  have 1: "daysBeforeYear (y + 1) = 365 * y + y div 4 - y div 100 + y div 400"
    by (simp add: daysBeforeYear_def)
  have 2: "daysBeforeYear y = 365 * (y - 1) + a - b + c"
    by (simp only: daysBeforeYear_def a_def b_def c_def)
  show ?thesis
    unfolding 1 2 d l using i by (cases p; cases q; cases r) simp_all
qed

lemma year_mono: "y \<le> z \<Longrightarrow> daysBeforeYear y \<le> daysBeforeYear z"
proof (induction z rule: int_ge_induct)
  case base
  show ?case by simp
next
  case (step i)
  then show ?case using year_step[of i] by (simp split: if_splits)
qed

lemma month_cases:
  assumes "1 \<le> m" "m \<le> 12"
  shows "m = 1 \<or> m = 2 \<or> m = 3 \<or> m = 4 \<or> m = 5 \<or> m = 6 \<or> m = 7 \<or> m = 8 \<or> m = 9 \<or>
         m = 10 \<or> m = 11 \<or> m = (12::int)"
  using assms by arith

lemma month_step:
  assumes "1 \<le> m" "m \<le> 12"
  shows "daysBeforeMonth (m + 1) y = daysBeforeMonth m y + daysIn m y"
  using month_cases[OF assms] by (auto simp: daysBeforeMonth_def daysIn_def)

lemma daysIn_pos: "0 < daysIn m y"
  by (simp add: daysIn_def)

lemma month_mono:
  assumes "1 \<le> m" "m \<le> n" "n \<le> 13"
  shows "daysBeforeMonth m y \<le> daysBeforeMonth n y"
  using assms(2,1,3)
proof (induction n rule: int_ge_induct)
  case base
  show ?case by simp
next
  case (step i)
  then show ?case
    using month_step[of i y] daysIn_pos[of i y] by simp
qed

lemma year_length: "daysBeforeMonth 13 y = (if isLeap y then 366 else 365)"
  by (simp add: daysBeforeMonth_def)

lemma dayNumber_bounds:
  assumes "validDate t"
  shows "daysBeforeYear (Year t) + daysBeforeMonth (Month t) (Year t) \<le> dayNumber t"
    and "dayNumber t < daysBeforeYear (Year t) + daysBeforeMonth (Month t + 1) (Year t)"
    and "dayNumber t < daysBeforeYear (Year t + 1)"
proof -
  have m: "1 \<le> Month t" "Month t \<le> 12" and d: "1 \<le> Day t" "Day t \<le> daysIn (Month t) (Year t)"
    using assms by (simp_all add: validDate_def)
  show 1: "daysBeforeYear (Year t) + daysBeforeMonth (Month t) (Year t) \<le> dayNumber t"
    using d by (simp add: dayNumber_def)
  show 2: "dayNumber t < daysBeforeYear (Year t) + daysBeforeMonth (Month t + 1) (Year t)"
    using d month_step[OF m, of "Year t"] by (simp add: dayNumber_def)
  have "daysBeforeMonth (Month t + 1) (Year t) \<le> daysBeforeMonth 13 (Year t)"
    using m by (intro month_mono) simp_all
  then show "dayNumber t < daysBeforeYear (Year t + 1)"
    using 2 year_step[of "Year t"] year_length[of "Year t"] by simp
qed

lemma dayNumber_nonneg_part:
  assumes "validDate t"
  shows "daysBeforeYear (Year t) \<le> dayNumber t"
proof -
  have "daysBeforeMonth 1 (Year t) \<le> daysBeforeMonth (Month t) (Year t)"
    using assms by (intro month_mono) (simp_all add: validDate_def)
  then show ?thesis
    using dayNumber_bounds(1)[OF assms] by (simp add: daysBeforeMonth_def)
qed

lemma dayNumber_strict:
  assumes "validDate a" "validDate b" "\<not> dateLe b a"
  shows "dayNumber a < dayNumber b"
proof -
  have "Year a < Year b \<or> (Year a = Year b \<and> Month a < Month b) \<or>
        (Year a = Year b \<and> Month a = Month b \<and> Day a < Day b)"
    using assms(3) unfolding dateLe_def by linarith
  then consider (y) "Year a < Year b"
    | (m) "Year a = Year b" "Month a < Month b"
    | (d) "Year a = Year b" "Month a = Month b" "Day a < Day b"
    by blast
  then show ?thesis
  proof cases
    case y
    have "dayNumber a < daysBeforeYear (Year a + 1)"
      by (rule dayNumber_bounds(3)[OF assms(1)])
    also have "\<dots> \<le> daysBeforeYear (Year b)"
      using y by (intro year_mono) simp
    also have "\<dots> \<le> dayNumber b"
      by (rule dayNumber_nonneg_part[OF assms(2)])
    finally show ?thesis .
  next
    case m
    have "dayNumber a < daysBeforeYear (Year a) + daysBeforeMonth (Month a + 1) (Year a)"
      by (rule dayNumber_bounds(2)[OF assms(1)])
    also have "daysBeforeMonth (Month a + 1) (Year a) \<le> daysBeforeMonth (Month b) (Year a)"
      using m assms(1,2) by (intro month_mono) (simp_all add: validDate_def)
    also have "daysBeforeYear (Year a) + daysBeforeMonth (Month b) (Year a) \<le> dayNumber b"
      using dayNumber_bounds(1)[OF assms(2)] m by simp
    finally show ?thesis by simp
  next
    case d
    then show ?thesis by (simp add: dayNumber_def)
  qed
qed

lemma dateLe_iff_dayNumber:
  assumes "validDate a" "validDate b"
  shows "dateLe a b = (dayNumber a \<le> dayNumber b)"
proof
  assume le: "dateLe a b"
  show "dayNumber a \<le> dayNumber b"
  proof (cases "dateLe b a")
    case True
    with le have "Year a = Year b" "Month a = Month b" "Day a = Day b"
      by (auto simp: dateLe_def)
    then show ?thesis by (simp add: dayNumber_def)
  next
    case False
    then show ?thesis using dayNumber_strict[OF assms False] by simp
  qed
next
  assume "dayNumber a \<le> dayNumber b"
  then show "dateLe a b"
    using dayNumber_strict[OF assms(2,1)] by fastforce
qed

lemma time_Parse_valid: "time_Parse v = Some t \<Longrightarrow> validDate t"
  by (drule time_Parse_SomeD) (auto simp: validDate_def)

lemma dayNumber_zeroTime: "dayNumber zeroTime = 0"
  by (simp add: dayNumber_def daysBeforeYear_def daysBeforeMonth_def zeroTime_def)

lemma inRange_dayNumber:
  assumes "validDate start" "validDate endT"
  shows "inRange start endT item =
           (case time_Parse (Item_Date item) of
              None \<Rightarrow> False
            | Some d \<Rightarrow> dayNumber start \<le> dayNumber d \<and> dayNumber d \<le> dayNumber endT)"
  using assms
  by (auto simp: inRange_def dateLe_iff_dayNumber time_Parse_valid split: option.splits)

section \<open>The filter loop\<close>

lemma not_before_iff_dateLe:
  "DayNanos a = 0 \<Longrightarrow> DayNanos b = 0 \<Longrightarrow> (Equal a b \<or> After a b) = dateLe b a"
  by (auto simp: Equal_def After_def dateLe_def)

lemma not_after_iff_dateLe:
  "DayNanos a = 0 \<Longrightarrow> DayNanos b = 0 \<Longrightarrow> (Equal a b \<or> Before a b) = dateLe a b"
  by (auto simp: Equal_def Before_def After_def dateLe_def)

lemma filterLoop_kept:
  "filterLoop data start endT acc = acc @ map toDataPoint (filter (kept start endT) data)"
proof (induction data arbitrary: acc)
  case Nil
  show ?case by simp
next
  case (Cons item rest)
  show ?case
  proof (cases "time_Parse (Item_Date item)")
    case None
    then show ?thesis
      by (simp add: Cons.IH kept_def)
  next
    case (Some date)
    then show ?thesis
      by (simp add: Cons.IH kept_def toDataPoint_def)
  qed
qed

lemma filterData_kept:
  "filterData data start endT = map toDataPoint (filter (kept start endT) data)"
  by (simp add: filterData_def filterLoop_kept)

lemma kept_inRange:
  assumes "DayNanos start = 0" "DayNanos endT = 0" "\<not> (IsZero start \<and> IsZero endT)"
  shows "kept start endT item = inRange start endT item"
proof (cases "time_Parse (Item_Date item)")
  case None
  then show ?thesis by (simp add: kept_def inRange_def)
next
  case (Some date)
  have "DayNanos date = 0" by (rule time_Parse_midnight[OF Some])
  then show ?thesis
    using assms Some
    by (auto simp: kept_def inRange_def not_before_iff_dateLe not_after_iff_dateLe)
qed

lemma kept_zero: "IsZero start \<Longrightarrow> IsZero endT \<Longrightarrow> kept start endT item = parseable item"
  by (simp add: kept_def parseable_def split: option.splits)

lemma filterData_range:
  assumes "DayNanos start = 0" "DayNanos endT = 0" "\<not> (IsZero start \<and> IsZero endT)"
  shows "filterData data start endT = map toDataPoint (filter (inRange start endT) data)"
proof -
  have "kept start endT = inRange start endT"
    using kept_inRange[OF assms] by (intro ext)
  then show ?thesis by (simp add: filterData_kept)
qed

lemma filterData_all:
  assumes "IsZero start" "IsZero endT"
  shows "filterData data start endT = map toDataPoint (filter parseable data)"
proof -
  have "kept start endT = parseable"
    using kept_zero[OF assms] by (intro ext)
  then show ?thesis by (simp add: filterData_kept)
qed

lemma count_unparseable:
  "length (filter parseable data) = length data - length (filter (\<lambda>i. \<not> parseable i) data)"
  using sum_length_filter_compl[of parseable data] by simp

section \<open>The range validation\<close>

lemma validate_both_given:
  assumes "startDate \<noteq> []" "endDate \<noteq> []"
    and "validateAndParseDates now startDate endDate = Inr (start, endT)"
  shows "time_Parse startDate = Some start \<and> time_Parse endDate = Some endT \<and>
         \<not> After endT now \<and> \<not> After start endT"
  using assms
  by (auto simp: validateAndParseDates_def parseDates_def split: option.splits if_splits)

lemma validate_none_given:
  "validateAndParseDates now [] [] = Inr (zeroTime, zeroTime)"
  by (simp add: validateAndParseDates_def)

lemma validate_parsed:
  assumes "time_Parse startDate = Some start" "time_Parse endDate = Some endT"
  shows "validateAndParseDates now startDate endDate =
           (if After endT now then Inl ''end date cannot be in the future''
            else if After start endT then Inl ''start date cannot be after end date''
            else Inr (start, endT))"
  using assms time_Parse_nonempty[OF assms(1)] time_Parse_nonempty[OF assms(2)]
  by (simp add: validateAndParseDates_def parseDates_def)

lemma validate_year_one:
  assumes "\<not> After zeroTime now"
  shows "validateAndParseDates now ''01-01-0001'' ''01-01-0001'' = Inr (zeroTime, zeroTime)"
proof -
  have "\<not> After zeroTime zeroTime"
    by (simp add: After_def)
  then show ?thesis
    using assms validate_parsed[OF parse_01_01_0001 parse_01_01_0001, of now] by simp
qed

lemma filterData_accepted_range:
  assumes "startDate \<noteq> []" "endDate \<noteq> []"
    and "validateAndParseDates now startDate endDate = Inr (start, endT)"
    and "\<not> (IsZero start \<and> IsZero endT)"
  shows "filterData data start endT = map toDataPoint (filter (inRange start endT) data)"
proof -
  from validate_both_given[OF assms(1-3)]
  have "time_Parse startDate = Some start" "time_Parse endDate = Some endT" by simp_all
  then have "DayNanos start = 0" "DayNanos endT = 0"
    by (simp_all add: time_Parse_midnight)
  then show ?thesis
    using assms(4) by (rule filterData_range)
qed

lemma Period_zero: "IsZero start \<or> IsZero endT \<Longrightarrow> Period (createSuccessResponse meta ps start endT) = []"
  by (auto simp: createSuccessResponse_def)

lemma period_accepted_range:
  assumes "startDate \<noteq> []" "endDate \<noteq> []"
    and "validateAndParseDates now startDate endDate = Inr (start, endT)"
  shows "Period (createSuccessResponse meta ps start endT) =
           (if startDate = ''01-01-0001'' \<or> endDate = ''01-01-0001'' then []
            else startDate @ '' to '' @ endDate)"
proof -
  from validate_both_given[OF assms]
  have p: "time_Parse startDate = Some start" "time_Parse endDate = Some endT" by simp_all
  show ?thesis
    using IsZero_parsed[OF p(1)] IsZero_parsed[OF p(2)] time_Format_Parse[OF p(1)] time_Format_Parse[OF p(2)]
    by (simp add: createSuccessResponse_def)
qed

section \<open>The branches of the handler\<close>

lemma isValidInteger_nonempty: "isValidInteger v \<Longrightarrow> v \<noteq> []"
  by (auto simp: isValidInteger_def strconv_Atoi_def)

lemma StatusCode_createErrorResponse: "StatusCode (fst (createErrorResponse code msg)) = code"
  by (simp add: createErrorResponse_def)


lemma fetch_Decoded:
  "httpGet w (baseURL @ fid) = Decoded fund \<Longrightarrow> fetchFundData w fid = Inr fund"
  by (simp add: fetchFundData_def)

lemma Handler_missing_id:
  "param request ''mutualFundID'' = [] \<Longrightarrow>
   Handler w request = createErrorResponse 400 ''mutualFundID query parameter is required''"
  by (simp add: Handler_def)

lemma Handler_bad_id:
  "param request ''mutualFundID'' \<noteq> [] \<Longrightarrow> \<not> isValidInteger (param request ''mutualFundID'') \<Longrightarrow>
   Handler w request = createErrorResponse 400 ''mutualFundID must be an integer''"
  by (simp add: Handler_def)

lemma Handler_range_error:
  assumes "isValidInteger (param request ''mutualFundID'')"
    and "validateAndParseDates (clock w) (param request ''start'') (param request ''end'') = Inl err"
  shows "Handler w request = createErrorResponse 400 err"
  using assms isValidInteger_nonempty[OF assms(1)] by (simp add: Handler_def)

lemma Handler_fetch_error:
  assumes "isValidInteger (param request ''mutualFundID'')"
    and "validateAndParseDates (clock w) (param request ''start'') (param request ''end'') = Inr (start, endT)"
    and "fetchFundData w (param request ''mutualFundID'') = Inl err"
  shows "Handler w request = createErrorResponse 500 err"
  using assms isValidInteger_nonempty[OF assms(1)] by (simp add: Handler_def)

lemma Handler_empty_meta:
  assumes "isValidInteger (param request ''mutualFundID'')"
    and "validateAndParseDates (clock w) (param request ''start'') (param request ''end'') = Inr (start, endT)"
    and "fetchFundData w (param request ''mutualFundID'') = Inr fund"
    and "Fund_Meta fund = emptyMeta"
  shows "Handler w request = createErrorResponse 400 ''Invalid mutualFundID''"
  using assms isValidInteger_nonempty[OF assms(1)] by (simp add: Handler_def)

lemma Handler_success:
  assumes "isValidInteger (param request ''mutualFundID'')"
    and "validateAndParseDates (clock w) (param request ''start'') (param request ''end'') = Inr (start, endT)"
    and "fetchFundData w (param request ''mutualFundID'') = Inr fund"
    and "Fund_Meta fund \<noteq> emptyMeta"
  shows "Handler w request =
           (\<lparr>StatusCode = 200,
             Body = Encoded (JObject
               ([(''meta'', meta_json (Fund_Meta fund))] @
                (if Period (createSuccessResponse (Fund_Meta fund) (filterData (Fund_Data fund) start endT) start endT) = [] then []
                 else [(''period'', JString (Period (createSuccessResponse (Fund_Meta fund) (filterData (Fund_Data fund) start endT) start endT)))]) @
                [(''data'', data_json (filterData (Fund_Data fund) start endT))])),
             Headers = jsonHeaders\<rparr>, None)"
  using assms isValidInteger_nonempty[OF assms(1)]
  by (simp add: Handler_def Let_def json_Marshal_def createSuccessResponse_def)

lemma Handler_cong:
  assumes "param r ''mutualFundID'' = param r' ''mutualFundID''"
    and "validateAndParseDates (clock w) (param r ''start'') (param r ''end'') =
         validateAndParseDates (clock w) (param r' ''start'') (param r' ''end'')"
  shows "Handler w r = Handler w r'"
  unfolding Handler_def Let_def assms by (rule refl)

text \<open>The two shapes of a success: without a range, and with a range other than year one.\<close>

lemma Handler_unfiltered:
  assumes "isValidInteger (param request ''mutualFundID'')"
    and "validateAndParseDates (clock w) (param request ''start'') (param request ''end'') = Inr (zeroTime, zeroTime)"
    and "httpGet w (baseURL @ param request ''mutualFundID'') = Decoded fund"
    and "Fund_Meta fund \<noteq> emptyMeta"
  shows "Handler w request =
           (\<lparr>StatusCode = 200,
             Body = Encoded (JObject
               [(''meta'', meta_json (Fund_Meta fund)),
                (''data'', data_json (map toDataPoint (filter parseable (Fund_Data fund))))]),
             Headers = jsonHeaders\<rparr>, None)"
  unfolding Handler_success[OF assms(1,2) fetch_Decoded[OF assms(3)] assms(4)]
  by (simp add: Period_zero IsZero_zeroTime filterData_all)

lemma Handler_ranged:
  assumes "isValidInteger (param request ''mutualFundID'')"
    and "param request ''start'' \<noteq> []" and "param request ''end'' \<noteq> []"
    and "validateAndParseDates (clock w) (param request ''start'') (param request ''end'') = Inr (start, endT)"
    and "param request ''start'' \<noteq> ''01-01-0001''" and "param request ''end'' \<noteq> ''01-01-0001''"
    and "httpGet w (baseURL @ param request ''mutualFundID'') = Decoded fund"
    and "Fund_Meta fund \<noteq> emptyMeta"
  shows "Handler w request =
           (\<lparr>StatusCode = 200,
             Body = Encoded (JObject
               [(''meta'', meta_json (Fund_Meta fund)),
                (''period'', JString (param request ''start'' @ '' to '' @ param request ''end'')),
                (''data'', data_json (map toDataPoint (filter (inRange start endT) (Fund_Data fund))))]),
             Headers = jsonHeaders\<rparr>, None)"
proof -
  from validate_both_given[OF assms(2-4)]
  have p: "time_Parse (param request ''start'') = Some start" by simp
  have z: "\<not> (IsZero start \<and> IsZero endT)"
    using IsZero_parsed[OF p] assms(5) by simp
  have per: "Period (createSuccessResponse (Fund_Meta fund) ps start endT) =
             param request ''start'' @ '' to '' @ param request ''end''" for ps
    using period_accepted_range[OF assms(2-4)] assms(5,6) by simp
  show ?thesis
    unfolding Handler_success[OF assms(1,4) fetch_Decoded[OF assms(7)] assms(8)]
      filterData_accepted_range[OF assms(2-4) z]
    by (simp add: per)
qed

section \<open>Error documents\<close>

lemma json_string_tail_plain:
  "plain_message m \<Longrightarrow> json_string_tail Plain (m @ dq # rest) = Some rest"
  by (induction m) (auto simp: plain_message_def)

lemma json_error_document_plain:
  assumes "plain_message m"
  shows "json_error_document (errorBody m) = Some m"
proof -
  have t: "json_string_tail Plain (m @ [dq, CHR ''}'']) = Some ''}''"
    using json_string_tail_plain[OF assms, of "''}''"] by simp
  show ?thesis
    by (simp add: json_error_document_def errorBody_def token_def json_ws_def dq_def t[unfolded dq_def])
qed

section \<open>The concrete requests and upstreams\<close>

lemma param_query:
  "param (query fid s e) ''mutualFundID'' = fid"
  "param (query fid s e) ''start'' = s"
  "param (query fid s e) ''end'' = e"
  by (simp_all add: param_def query_def requestOf_def)

lemma isValidInteger_119598: "isValidInteger ''119598''"
  by (simp add: isValidInteger_def strconv_Atoi_def isDigit_def decimal_def digitVal_def)

lemma isValidInteger_0: "isValidInteger ''0''"
  by (simp add: isValidInteger_def strconv_Atoi_def isDigit_def decimal_def digitVal_def)

lemma exampleMeta_nonempty: "exampleMeta \<noteq> emptyMeta"
  by (simp add: exampleMeta_def emptyMeta_def)

lemma Fund_Meta_exampleFund: "Fund_Meta exampleFund = exampleMeta"
  by (simp add: exampleFund_def)

lemma fetch_serving_119598: "httpGet serving (baseURL @ ''119598'') = Decoded exampleFund"
  by (simp add: serving_def)

lemma fetch_unreachable:
  "fetchFundData unreachable fid =
     Inl (''error fetching data from API: Get '' @ [dq] @ baseURL @ fid @ [dq] @ '': EOF'')"
  by (simp add: fetchFundData_def unreachable_def)

lemma validate_january:
  "validateAndParseDates noon ''01-01-2023'' ''31-01-2023'' =
     Inr (\<lparr>Year = 2023, Month = 1, Day = 1, DayNanos = 0\<rparr>, \<lparr>Year = 2023, Month = 1, Day = 31, DayNanos = 0\<rparr>)"
  by (simp add: validateAndParseDates_def parseDates_def parse_01_01_2023 parse_31_01_2023 After_def noon_def)

lemma validate_tomorrow:
  "validateAndParseDates now ''tomorrow'' ''31-01-2023'' = Inl ''invalid start date format. use dd-mm-yyyy''"
  by (simp add: validateAndParseDates_def parseDates_def parse_tomorrow)

lemma validate_from_year_one:
  "validateAndParseDates noon ''01-01-0001'' ''31-01-2023'' =
     Inr (zeroTime, \<lparr>Year = 2023, Month = 1, Day = 31, DayNanos = 0\<rparr>)"
  using validate_parsed[OF parse_01_01_0001 parse_31_01_2023, of noon]
  by (simp add: After_def noon_def zeroTime_def)

lemma example_parseable:
  "filter parseable (Fund_Data exampleFund) =
     [\<lparr>Item_Date = ''15-01-2023'', Item_Nav = ''10.5''\<rparr>,
      \<lparr>Item_Date = ''28-02-2023'', Item_Nav = ''11.0''\<rparr>,
      \<lparr>Item_Date = ''02-01-2023'', Item_Nav = ''10.1''\<rparr>]"
  by (simp add: exampleFund_def parseable_def example_parses)

lemma example_in_january:
  "filter (inRange \<lparr>Year = 2023, Month = 1, Day = 1, DayNanos = 0\<rparr>
                   \<lparr>Year = 2023, Month = 1, Day = 31, DayNanos = 0\<rparr>) (Fund_Data exampleFund) =
     [\<lparr>Item_Date = ''15-01-2023'', Item_Nav = ''10.5''\<rparr>,
      \<lparr>Item_Date = ''02-01-2023'', Item_Nav = ''10.1''\<rparr>]"
  by (simp add: exampleFund_def inRange_def example_parses dateLe_def)

lemma example_kept_from_year_one:
  "filter (kept zeroTime \<lparr>Year = 2023, Month = 1, Day = 31, DayNanos = 0\<rparr>) (Fund_Data exampleFund) =
     [\<lparr>Item_Date = ''15-01-2023'', Item_Nav = ''10.5''\<rparr>,
      \<lparr>Item_Date = ''02-01-2023'', Item_Nav = ''10.1''\<rparr>]"
  by (simp add: exampleFund_def kept_def example_parses IsZero_def Equal_def After_def Before_def zeroTime_def)

text \<open>
  The example of the specification: the January range over the points of 15-01-2023,
  28-02-2023 and 02-01-2023 returns the first and the last, in that order, with the period.
\<close>

lemma example_of_the_specification:
  "Handler serving (query ''119598'' ''01-01-2023'' ''31-01-2023'') =
     (\<lparr>StatusCode = 200,
       Body = Encoded (JObject
         [(''meta'', meta_json exampleMeta),
          (''period'', JString ''01-01-2023 to 31-01-2023''),
          (''data'', JArray
             [point_json \<lparr>Date = ''15-01-2023'', Nav = ''10.5''\<rparr>,
              point_json \<lparr>Date = ''02-01-2023'', Nav = ''10.1''\<rparr>])]),
       Headers = jsonHeaders\<rparr>, None)"
proof -
  have c: "clock serving = noon"
    by (simp add: serving_def)
  show ?thesis
    using Handler_ranged[of "query ''119598'' ''01-01-2023'' ''31-01-2023''" serving
        "\<lparr>Year = 2023, Month = 1, Day = 1, DayNanos = 0\<rparr>"
        "\<lparr>Year = 2023, Month = 1, Day = 31, DayNanos = 0\<rparr>" exampleFund]
    by (simp add: param_query isValidInteger_119598 c validate_january fetch_serving_119598
        exampleMeta_nonempty Fund_Meta_exampleFund example_in_january data_json_def toDataPoint_def)
qed

section \<open>The claims\<close>

text \<open>
  C1.  The claim: for every accepted range the output of the filter is the subsequence of the
  upstream points whose date parses and lies in the range.  The source tests
  \<^verbatim>\<open>start.IsZero() && end.IsZero()\<close> to recognise a request without dates, and the date
  01-01-0001 parses to the zero time.  At the accepted range from 01-01-0001 to 01-01-0001
  the filter therefore returns all three parseable points of the example fund, while none
  of them lies in the range.  (For every other accepted range the claim holds:
  \<open>filterData_accepted_range\<close>.)
\<close>

theorem C1_year_one_range_returns_everything:
  "validateAndParseDates noon ''01-01-0001'' ''01-01-0001'' = Inr (zeroTime, zeroTime) \<and>
   filterData (Fund_Data exampleFund) zeroTime zeroTime =
     [\<lparr>Date = ''15-01-2023'', Nav = ''10.5''\<rparr>,
      \<lparr>Date = ''28-02-2023'', Nav = ''11.0''\<rparr>,
      \<lparr>Date = ''02-01-2023'', Nav = ''10.1''\<rparr>] \<and>
   map toDataPoint (filter (inRange zeroTime zeroTime) (Fund_Data exampleFund)) = [] \<and>
   filterData (Fund_Data exampleFund) zeroTime zeroTime \<noteq>
     map toDataPoint (filter (inRange zeroTime zeroTime) (Fund_Data exampleFund))"
proof -
  have n: "\<not> After zeroTime noon"
    by (simp add: After_def zeroTime_def noon_def)
  have "filter (inRange zeroTime zeroTime) (Fund_Data exampleFund) = []"
    by (simp add: exampleFund_def inRange_def example_parses dateLe_def zeroTime_def)
  then show ?thesis
    by (simp add: validate_year_one[OF n] filterData_all IsZero_zeroTime example_parseable toDataPoint_def)
qed

text \<open>
  C2, as stated.  The specification lists the gates in the order Parser, Fetcher, Metadata
  check, Range validation.  For a request with a valid fund id, a malformed start date and an
  upstream that cannot be reached, both the range gate and the fetcher gate fail; a
  pipeline in the stated order answers with the fetch error and status 500, the handler
  answers with the date error and status 400.
\<close>

theorem C2_stated_order_counterexample:
  "gate_failure unreachable (query ''119598'' ''tomorrow'' ''31-01-2023'') RangeGate =
     Some (400, ''invalid start date format. use dd-mm-yyyy'') \<and>
   gate_failure unreachable (query ''119598'' ''tomorrow'' ''31-01-2023'') FetcherGate =
     Some (500, ''error fetching data from API: Get '' @ [dq] @ baseURL @ ''119598'' @ [dq] @ '': EOF'') \<and>
   pipeline stated_order unreachable (query ''119598'' ''tomorrow'' ''31-01-2023'') =
     createErrorResponse 500
       (''error fetching data from API: Get '' @ [dq] @ baseURL @ ''119598'' @ [dq] @ '': EOF'') \<and>
   Handler unreachable (query ''119598'' ''tomorrow'' ''31-01-2023'') =
     createErrorResponse 400 ''invalid start date format. use dd-mm-yyyy'' \<and>
   Handler unreachable (query ''119598'' ''tomorrow'' ''31-01-2023'') \<noteq>
     pipeline stated_order unreachable (query ''119598'' ''tomorrow'' ''31-01-2023'')"
proof -
  let ?q = "query ''119598'' ''tomorrow'' ''31-01-2023''"
  have r: "gate_failure unreachable ?q RangeGate = Some (400, ''invalid start date format. use dd-mm-yyyy'')"
    by (simp add: param_query validate_tomorrow)
  have f: "gate_failure unreachable ?q FetcherGate =
     Some (500, ''error fetching data from API: Get '' @ [dq] @ baseURL @ ''119598'' @ [dq] @ '': EOF'')"
    by (simp add: param_query fetch_unreachable)
  have p: "gate_failure unreachable ?q ParserGate = None"
    using isValidInteger_119598 by (simp add: param_query)
  have s: "pipeline stated_order unreachable ?q =
     createErrorResponse 500
       (''error fetching data from API: Get '' @ [dq] @ baseURL @ ''119598'' @ [dq] @ '': EOF'')"
    using p f by (simp add: pipeline_def stated_order_def del: gate_failure.simps)
  have h: "Handler unreachable ?q = createErrorResponse 400 ''invalid start date format. use dd-mm-yyyy''"
    by (rule Handler_range_error) (simp_all add: param_query isValidInteger_119598 validate_tomorrow)
  have "createErrorResponse 400 ''invalid start date format. use dd-mm-yyyy'' \<noteq>
        createErrorResponse 500
          (''error fetching data from API: Get '' @ [dq] @ baseURL @ ''119598'' @ [dq] @ '': EOF'')"
    by (simp add: createErrorResponse_def)
  then show ?thesis
    using r f s h by simp
qed

text \<open>
  C2, amended.  The handler is the pipeline over the order Parser, Range validation,
  Fetcher, Metadata check, followed by Filter and Build: the first failing gate in this
  order decides the answer.  In particular a request whose fund id is valid and whose dates
  are rejected is answered with the error of the range validation and status 400, whatever
  the upstream would do.
\<close>

theorem C2_source_order:
  "Handler w request = pipeline source_order w request \<and>
   (\<forall>err. isValidInteger (param request ''mutualFundID'') \<and>
      validateAndParseDates (clock w) (param request ''start'') (param request ''end'') = Inl err \<longrightarrow>
      Handler w request = createErrorResponse 400 err)"
proof -
  have "Handler w request = pipeline source_order w request"
  proof (cases "param request ''mutualFundID'' = []")
    case True
    then show ?thesis
      by (simp add: Handler_missing_id pipeline_def source_order_def)
  next
    case ne: False
    show ?thesis
    proof (cases "isValidInteger (param request ''mutualFundID'')")
      case False
      then show ?thesis
        using ne by (simp add: Handler_bad_id pipeline_def source_order_def)
    next
      case ok: True
      show ?thesis
      proof (cases "validateAndParseDates (clock w) (param request ''start'') (param request ''end'')")
        case (Inl err)
        then show ?thesis
          using ne ok by (simp add: Handler_range_error pipeline_def source_order_def)
      next
        case (Inr p)
        obtain start endT where p: "p = (start, endT)" by (cases p)
        note v = Inr[unfolded p]
        show ?thesis
        proof (cases "fetchFundData w (param request ''mutualFundID'')")
          case (Inl err)
          then show ?thesis
            using ne ok v by (simp add: Handler_fetch_error pipeline_def source_order_def)
        next
          case (Inr fund)
          show ?thesis
          proof (cases "Fund_Meta fund = emptyMeta")
            case True
            then show ?thesis
              using ne ok v Inr by (simp add: Handler_empty_meta pipeline_def source_order_def)
          next
            case False
            then show ?thesis
              using ne ok v Inr
              by (simp add: Handler_def Let_def pipeline_def source_order_def filter_and_build_def)
          qed
        qed
      qed
    qed
  qed
  then show ?thesis
    using Handler_range_error by blast
qed

theorem C2_source_order_witness:
  "pipeline source_order unreachable (query ''119598'' ''tomorrow'' ''31-01-2023'') =
     createErrorResponse 400 ''invalid start date format. use dd-mm-yyyy'' \<and>
   Handler unreachable (query ''119598'' ''tomorrow'' ''31-01-2023'') =
     createErrorResponse 400 ''invalid start date format. use dd-mm-yyyy''"
proof -
  let ?q = "query ''119598'' ''tomorrow'' ''31-01-2023''"
  note t = C2_source_order[of unreachable ?q]
  have h: "Handler unreachable ?q = createErrorResponse 400 ''invalid start date format. use dd-mm-yyyy''"
    using t[THEN conjunct2, rule_format, of "''invalid start date format. use dd-mm-yyyy''"]
    by (simp add: param_query isValidInteger_119598 validate_tomorrow)
  show ?thesis
    using t[THEN conjunct1] h by simp
qed

text \<open>
  C3.  The claim: the period is present exactly when a range was supplied and accepted, and
  then reads "start to end" with the dates as supplied.  The source writes the period only
  when neither bound is the zero time.  The range from 01-01-0001 to 31-01-2023 is accepted
  and applied (the point of 28-02-2023 is filtered out), yet the document has no \<open>period\<close>
  member.  (For accepted ranges with both dates other than 01-01-0001 the claim holds:
  \<open>period_accepted_range\<close>, \<open>Handler_ranged\<close>.)
\<close>

theorem C3_period_missing_from_year_one:
  "validateAndParseDates noon ''01-01-0001'' ''31-01-2023'' =
     Inr (zeroTime, \<lparr>Year = 2023, Month = 1, Day = 31, DayNanos = 0\<rparr>) \<and>
   Handler serving (query ''119598'' ''01-01-0001'' ''31-01-2023'') =
     (\<lparr>StatusCode = 200,
       Body = Encoded (JObject
         [(''meta'', meta_json exampleMeta),
          (''data'', JArray
             [point_json \<lparr>Date = ''15-01-2023'', Nav = ''10.5''\<rparr>,
              point_json \<lparr>Date = ''02-01-2023'', Nav = ''10.1''\<rparr>])]),
       Headers = jsonHeaders\<rparr>, None) \<and>
   json_member ''period'' (JObject
         [(''meta'', meta_json exampleMeta),
          (''data'', JArray
             [point_json \<lparr>Date = ''15-01-2023'', Nav = ''10.5''\<rparr>,
              point_json \<lparr>Date = ''02-01-2023'', Nav = ''10.1''\<rparr>])]) = None"
proof -
  let ?q = "query ''119598'' ''01-01-0001'' ''31-01-2023''"
  have c: "clock serving = noon"
    by (simp add: serving_def)
  have "Handler serving ?q =
     (\<lparr>StatusCode = 200,
       Body = Encoded (JObject
         [(''meta'', meta_json exampleMeta),
          (''data'', JArray
             [point_json \<lparr>Date = ''15-01-2023'', Nav = ''10.5''\<rparr>,
              point_json \<lparr>Date = ''02-01-2023'', Nav = ''10.1''\<rparr>])]),
       Headers = jsonHeaders\<rparr>, None)"
    using Handler_success[of ?q serving zeroTime "\<lparr>Year = 2023, Month = 1, Day = 31, DayNanos = 0\<rparr>" exampleFund]
    by (simp add: param_query isValidInteger_119598 c validate_from_year_one
        fetch_Decoded[OF fetch_serving_119598] exampleMeta_nonempty Fund_Meta_exampleFund
        Period_zero IsZero_zeroTime filterData_kept example_kept_from_year_one
        data_json_def toDataPoint_def)
  then show ?thesis
    by (simp add: validate_from_year_one json_member_def)
qed

text \<open>
  C4.  For a request with both \<open>start\<close> and \<open>end\<close> empty the range validation returns the
  two zero times, and with them the filter returns exactly the upstream points whose date
  parses, in their order: as many as the upstream sequence has, minus those with an
  unparseable date.  When such a request reaches the filter (valid fund id, decoded fund
  with non-empty metadata) the response is a 200 whose document has the members \<open>meta\<close> and
  \<open>data\<close> only, so no \<open>period\<close>.
\<close>

theorem C4_no_dates_pass_through:
  assumes "param request ''start'' = []" and "param request ''end'' = []"
  shows "validateAndParseDates (clock w) (param request ''start'') (param request ''end'') =
           Inr (zeroTime, zeroTime) \<and>
         (\<forall>data.
            filterData data zeroTime zeroTime = map toDataPoint (filter parseable data) \<and>
            length (filterData data zeroTime zeroTime) =
              length data - length (filter (\<lambda>i. \<not> parseable i) data)) \<and>
         (\<forall>fund.
            isValidInteger (param request ''mutualFundID'') \<and>
            httpGet w (baseURL @ param request ''mutualFundID'') = Decoded fund \<and>
            Fund_Meta fund \<noteq> emptyMeta \<longrightarrow>
            Handler w request =
              (\<lparr>StatusCode = 200,
                Body = Encoded (JObject
                  [(''meta'', meta_json (Fund_Meta fund)),
                   (''data'', data_json (filterData (Fund_Data fund) zeroTime zeroTime))]),
                Headers = jsonHeaders\<rparr>, None) \<and>
            json_member ''period'' (JObject
                  [(''meta'', meta_json (Fund_Meta fund)),
                   (''data'', data_json (filterData (Fund_Data fund) zeroTime zeroTime))]) = None)"
proof -
  have v: "validateAndParseDates (clock w) (param request ''start'') (param request ''end'') =
             Inr (zeroTime, zeroTime)"
    by (simp add: assms validate_none_given)
  have f: "filterData data zeroTime zeroTime = map toDataPoint (filter parseable data)" for data
    by (rule filterData_all) (rule IsZero_zeroTime)+
  have l: "length (filterData data zeroTime zeroTime) =
             length data - length (filter (\<lambda>i. \<not> parseable i) data)" for data
    using count_unparseable[of data] by (simp add: f)
  have h: "Handler w request =
              (\<lparr>StatusCode = 200,
                Body = Encoded (JObject
                  [(''meta'', meta_json (Fund_Meta fund)),
                   (''data'', data_json (filterData (Fund_Data fund) zeroTime zeroTime))]),
                Headers = jsonHeaders\<rparr>, None)"
    if "isValidInteger (param request ''mutualFundID'')"
      and "httpGet w (baseURL @ param request ''mutualFundID'') = Decoded fund"
      and "Fund_Meta fund \<noteq> emptyMeta" for fund
    using Handler_unfiltered[OF that(1) v that(2,3)] by (simp add: f)
  have m: "json_member ''period'' (JObject [(''meta'', a), (''data'', b)]) = None" for a b
    by (simp add: json_member_def)
  show ?thesis
    using v f l h m by blast
qed

theorem C4_no_dates_pass_through_witness:
  "Handler serving (query ''119598'' [] []) =
     (\<lparr>StatusCode = 200,
       Body = Encoded (JObject
         [(''meta'', meta_json exampleMeta),
          (''data'', JArray
             [point_json \<lparr>Date = ''15-01-2023'', Nav = ''10.5''\<rparr>,
              point_json \<lparr>Date = ''28-02-2023'', Nav = ''11.0''\<rparr>,
              point_json \<lparr>Date = ''02-01-2023'', Nav = ''10.1''\<rparr>])]),
       Headers = jsonHeaders\<rparr>, None) \<and>
   length (filterData (Fund_Data exampleFund) zeroTime zeroTime) = 3 \<and>
   length (Fund_Data exampleFund) = 4 \<and>
   length (filter (\<lambda>i. \<not> parseable i) (Fund_Data exampleFund)) = 1"
proof -
  let ?q = "query ''119598'' [] []"
  note t = C4_no_dates_pass_through[of ?q serving, unfolded param_query, OF refl refl]
  have u: "filter (\<lambda>i. \<not> parseable i) (Fund_Data exampleFund) =
             [\<lparr>Item_Date = ''2023-01-20'', Item_Nav = ''10.7''\<rparr>]"
    by (simp add: exampleFund_def parseable_def example_parses)
  have d: "filterData (Fund_Data exampleFund) zeroTime zeroTime =
             [\<lparr>Date = ''15-01-2023'', Nav = ''10.5''\<rparr>,
              \<lparr>Date = ''28-02-2023'', Nav = ''11.0''\<rparr>,
              \<lparr>Date = ''02-01-2023'', Nav = ''10.1''\<rparr>]"
    using t[THEN conjunct2, THEN conjunct1, rule_format, of "Fund_Data exampleFund", THEN conjunct1]
    by (simp add: example_parseable toDataPoint_def)
  have l: "length (filterData (Fund_Data exampleFund) zeroTime zeroTime) = 3"
    using t[THEN conjunct2, THEN conjunct1, rule_format, of "Fund_Data exampleFund", THEN conjunct2]
    unfolding u by (simp add: exampleFund_def)
  have h: "Handler serving ?q =
     (\<lparr>StatusCode = 200,
       Body = Encoded (JObject
         [(''meta'', meta_json (Fund_Meta exampleFund)),
          (''data'', data_json (filterData (Fund_Data exampleFund) zeroTime zeroTime))]),
       Headers = jsonHeaders\<rparr>, None)"
    using t[THEN conjunct2, THEN conjunct2, rule_format, of exampleFund]
    by (simp add: isValidInteger_119598 fetch_serving_119598 exampleMeta_nonempty Fund_Meta_exampleFund)
  show ?thesis
    using h l by (simp add: d u Fund_Meta_exampleFund data_json_def) (simp add: exampleFund_def)
qed

text \<open>
  C5.  The claim: every failure body is a well-formed JSON document \<open>{"error": message}\<close>.
  The source pastes the message between two quotes without escaping it.  The error of
  \<^verbatim>\<open>http.Get\<close> quotes the URL, so for an unreachable upstream the body of the 500 response
  is not recognised as a JSON document of that shape: the string literal ends at the quote
  before the URL.  (For messages without quotes, backslashes and control characters the
  body is well formed: \<open>json_error_document_plain\<close>.)
\<close>

theorem C5_error_body_not_json:
  "Handler unreachable (query ''119598'' [] []) =
     createErrorResponse 500
       (''error fetching data from API: Get '' @ [dq] @ ''https://api.mfapi.in/mf/119598'' @ [dq] @ '': EOF'') \<and>
   Body (fst (Handler unreachable (query ''119598'' [] []))) =
     Text (errorBody
       (''error fetching data from API: Get '' @ [dq] @ ''https://api.mfapi.in/mf/119598'' @ [dq] @ '': EOF'')) \<and>
   json_error_document (errorBody
       (''error fetching data from API: Get '' @ [dq] @ ''https://api.mfapi.in/mf/119598'' @ [dq] @ '': EOF'')) = None"
proof -
  let ?q = "query ''119598'' [] []"
  let ?m = "''error fetching data from API: Get '' @ [dq] @ ''https://api.mfapi.in/mf/119598'' @ [dq] @ '': EOF''"
  have h: "Handler unreachable ?q = createErrorResponse 500 ?m"
    using Handler_fetch_error[of ?q unreachable zeroTime zeroTime ?m]
    by (simp add: param_query isValidInteger_119598 validate_none_given fetch_unreachable baseURL_def)
  have j: "json_error_document (errorBody ?m) = None"
    by (simp add: json_error_document_def errorBody_def token_def json_ws_def dq_def backslash_def)
  show ?thesis
    using h j by (simp add: createErrorResponse_def)
qed

text \<open>
  C6.  For two dates that parse in the dd-mm-yyyy format: when the end date is strictly
  after the current moment the validation fails with "end date cannot be in the future";
  otherwise, when the start date is strictly after the end date, it fails with "start date
  cannot be after end date".  Every request carrying such dates is answered with status 400,
  and once its fund id has passed the parser the answer is this failure.
\<close>

theorem C6_future_end_and_inverted_range:
  assumes "time_Parse startDate = Some start" "time_Parse endDate = Some endT"
  shows "validateAndParseDates now startDate endDate =
           (if After endT now then Inl ''end date cannot be in the future''
            else if After start endT then Inl ''start date cannot be after end date''
            else Inr (start, endT)) \<and>
         (\<forall>w request.
            param request ''start'' = startDate \<and> param request ''end'' = endDate \<and>
            (After endT (clock w) \<or> After start endT) \<longrightarrow>
            StatusCode (fst (Handler w request)) = 400 \<and>
            (isValidInteger (param request ''mutualFundID'') \<longrightarrow>
             Handler w request =
               createErrorResponse 400
                 (if After endT (clock w) then ''end date cannot be in the future''
                  else ''start date cannot be after end date'')))"
proof -
  note v = validate_parsed[OF assms]
  have h: "StatusCode (fst (Handler w request)) = 400 \<and>
           (isValidInteger (param request ''mutualFundID'') \<longrightarrow>
            Handler w request =
              createErrorResponse 400
                (if After endT (clock w) then ''end date cannot be in the future''
                 else ''start date cannot be after end date''))"
    if p: "param request ''start'' = startDate" "param request ''end'' = endDate"
      and bad: "After endT (clock w) \<or> After start endT" for w request
  proof (cases "isValidInteger (param request ''mutualFundID'')")
    case True
    have "validateAndParseDates (clock w) (param request ''start'') (param request ''end'') =
            Inl (if After endT (clock w) then ''end date cannot be in the future''
                 else ''start date cannot be after end date'')"
      using bad by (auto simp: p v)
    from Handler_range_error[OF True this] show ?thesis
      by (simp add: StatusCode_createErrorResponse)
  next
    case False
    then show ?thesis
      by (cases "param request ''mutualFundID'' = []")
         (simp_all add: Handler_missing_id Handler_bad_id StatusCode_createErrorResponse)
  qed
  show ?thesis
    using v h by blast
qed

theorem C6_future_end_and_inverted_range_witness:
  "validateAndParseDates noon ''01-01-2023'' ''31-12-2024'' = Inl ''end date cannot be in the future'' \<and>
   Handler serving (query ''119598'' ''01-01-2023'' ''31-12-2024'') =
     createErrorResponse 400 ''end date cannot be in the future'' \<and>
   validateAndParseDates noon ''31-01-2023'' ''01-01-2023'' = Inl ''start date cannot be after end date'' \<and>
   Handler serving (query ''119598'' ''31-01-2023'' ''01-01-2023'') =
     createErrorResponse 400 ''start date cannot be after end date''"
proof -
  have c: "clock serving = noon"
    by (simp add: serving_def)
  have f: "After \<lparr>Year = 2024, Month = 12, Day = 31, DayNanos = 0\<rparr> noon"
    by (simp add: After_def noon_def)
  have i: "\<not> After \<lparr>Year = 2023, Month = 1, Day = 1, DayNanos = 0\<rparr> noon"
      "After \<lparr>Year = 2023, Month = 1, Day = 31, DayNanos = 0\<rparr> \<lparr>Year = 2023, Month = 1, Day = 1, DayNanos = 0\<rparr>"
    by (simp_all add: After_def noon_def)
  show ?thesis
    using C6_future_end_and_inverted_range[OF parse_01_01_2023 parse_31_12_2024, of noon]
      C6_future_end_and_inverted_range[OF parse_31_01_2023 parse_01_01_2023, of noon]
    by (simp add: param_query isValidInteger_119598 c f i)
qed

text \<open>
  C7.  When exactly one of \<open>start\<close> and \<open>end\<close> is non-empty, whichever it is and whatever it
  contains, the range validation fails with the message "both start and end dates are
  required in the format dd-mm-yyyy".  Every such request is answered with status 400, and
  once its fund id has passed the parser the answer is this failure.
\<close>

theorem C7_incomplete_range:
  assumes "(startDate = []) \<noteq> (endDate = [])"
  shows "validateAndParseDates now startDate endDate =
           Inl ''both start and end dates are required in the format dd-mm-yyyy'' \<and>
         (\<forall>w request.
            param request ''start'' = startDate \<and> param request ''end'' = endDate \<longrightarrow>
            StatusCode (fst (Handler w request)) = 400 \<and>
            (isValidInteger (param request ''mutualFundID'') \<longrightarrow>
             Handler w request =
               createErrorResponse 400 ''both start and end dates are required in the format dd-mm-yyyy''))"
proof -
  have v: "validateAndParseDates t startDate endDate =
             Inl ''both start and end dates are required in the format dd-mm-yyyy''" for t
    using assms by (auto simp: validateAndParseDates_def)
  have h: "StatusCode (fst (Handler w request)) = 400 \<and>
           (isValidInteger (param request ''mutualFundID'') \<longrightarrow>
            Handler w request =
              createErrorResponse 400 ''both start and end dates are required in the format dd-mm-yyyy'')"
    if p: "param request ''start'' = startDate" "param request ''end'' = endDate" for w request
  proof (cases "isValidInteger (param request ''mutualFundID'')")
    case True
    have "Handler w request =
            createErrorResponse 400 ''both start and end dates are required in the format dd-mm-yyyy''"
      by (rule Handler_range_error[OF True]) (simp add: p v)
    then show ?thesis
      by (simp add: StatusCode_createErrorResponse)
  next
    case False
    then show ?thesis
      by (cases "param request ''mutualFundID'' = []")
         (simp_all add: Handler_missing_id Handler_bad_id StatusCode_createErrorResponse)
  qed
  show ?thesis
    using v h by blast
qed

theorem C7_incomplete_range_witness:
  "validateAndParseDates noon ''01-01-2023'' [] =
     Inl ''both start and end dates are required in the format dd-mm-yyyy'' \<and>
   Handler serving (query ''119598'' ''01-01-2023'' []) =
     createErrorResponse 400 ''both start and end dates are required in the format dd-mm-yyyy'' \<and>
   validateAndParseDates noon [] ''not a date'' =
     Inl ''both start and end dates are required in the format dd-mm-yyyy'' \<and>
   Handler unreachable (query ''119598'' [] ''not a date'') =
     createErrorResponse 400 ''both start and end dates are required in the format dd-mm-yyyy'' \<and>
   StatusCode (fst (Handler unreachable (query [] [] ''not a date''))) = 400"
proof -
  have a: "(''01-01-2023'' = []) \<noteq> (([]::string) = [])" and b: "(([]::string) = []) \<noteq> (''not a date'' = [])"
    by simp_all
  show ?thesis
    using C7_incomplete_range[OF a, of noon] C7_incomplete_range[OF b, of noon]
    by (simp add: param_query isValidInteger_119598)
qed

text \<open>
  C8.  When the fetch succeeds with metadata equal to the zero value of the struct, the
  handler answers with the client error "Invalid mutualFundID" and status 400, whatever
  NAV data comes with it.  (The fetch is reached only by a request whose fund id and dates
  have passed the earlier gates.)
\<close>

theorem C8_empty_metadata:
  assumes "isValidInteger (param request ''mutualFundID'')"
    and "validateAndParseDates (clock w) (param request ''start'') (param request ''end'') = Inr (start, endT)"
    and "httpGet w (baseURL @ param request ''mutualFundID'') = Decoded fund"
    and "Fund_Meta fund = emptyMeta"
  shows "Handler w request = createErrorResponse 400 ''Invalid mutualFundID'' \<and>
         StatusCode (fst (Handler w request)) = 400 \<and>
         Body (fst (Handler w request)) = Text (errorBody ''Invalid mutualFundID'')"
proof -
  have "Handler w request = createErrorResponse 400 ''Invalid mutualFundID''"
    by (rule Handler_empty_meta[OF assms(1,2) fetch_Decoded[OF assms(3)] assms(4)])
  then show ?thesis
    by (simp add: createErrorResponse_def)
qed

theorem C8_empty_metadata_witness:
  "Handler serving (query ''0'' [] []) = createErrorResponse 400 ''Invalid mutualFundID'' \<and>
   Handler (serving\<lparr>httpGet := (\<lambda>url. Decoded (exampleFund\<lparr>Fund_Meta := emptyMeta\<rparr>))\<rparr>)
       (query ''119598'' ''01-01-2023'' ''31-01-2023'') =
     createErrorResponse 400 ''Invalid mutualFundID''"
proof -
  let ?w = "serving\<lparr>httpGet := (\<lambda>url. Decoded (exampleFund\<lparr>Fund_Meta := emptyMeta\<rparr>))\<rparr>"
  have 1: "Handler serving (query ''0'' [] []) = createErrorResponse 400 ''Invalid mutualFundID''"
    using C8_empty_metadata[of "query ''0'' [] []" serving zeroTime zeroTime
        "\<lparr>Fund_Meta = emptyMeta, Fund_Data = []\<rparr>"]
    by (simp add: param_query isValidInteger_0 validate_none_given serving_def baseURL_def)
  have 2: "Handler ?w (query ''119598'' ''01-01-2023'' ''31-01-2023'') =
             createErrorResponse 400 ''Invalid mutualFundID''"
    using C8_empty_metadata[of "query ''119598'' ''01-01-2023'' ''31-01-2023''" ?w
        "\<lparr>Year = 2023, Month = 1, Day = 1, DayNanos = 0\<rparr>" "\<lparr>Year = 2023, Month = 1, Day = 31, DayNanos = 0\<rparr>"
        "exampleFund\<lparr>Fund_Meta := emptyMeta\<rparr>"]
    by (simp add: param_query isValidInteger_119598 validate_january serving_def)
  show ?thesis using 1 2 by simp
qed

text \<open>
  C9.  With \<open>start\<close> and \<open>end\<close> both "01-01-0001" (and a clock that is not before that date)
  the range validation accepts the range, with both bounds the zero time; the handler then
  answers exactly as it does for the same request without \<open>start\<close> and \<open>end\<close>: on success
  every upstream point with a parseable date is returned, inside the range or not, and the
  document has no \<open>period\<close> member.
\<close>

theorem C9_year_one_range_acts_as_no_range:
  assumes "\<not> After zeroTime (clock w)"
    and "param request ''start'' = ''01-01-0001''" and "param request ''end'' = ''01-01-0001''"
  shows "validateAndParseDates (clock w) (param request ''start'') (param request ''end'') =
           Inr (zeroTime, zeroTime) \<and>
         Handler w request =
           Handler w (request\<lparr>QueryStringParameters :=
                        (QueryStringParameters request)(''start'' := None, ''end'' := None)\<rparr>) \<and>
         (\<forall>fund.
            isValidInteger (param request ''mutualFundID'') \<and>
            httpGet w (baseURL @ param request ''mutualFundID'') = Decoded fund \<and>
            Fund_Meta fund \<noteq> emptyMeta \<longrightarrow>
            Handler w request =
              (\<lparr>StatusCode = 200,
                Body = Encoded (JObject
                  [(''meta'', meta_json (Fund_Meta fund)),
                   (''data'', data_json (map toDataPoint (filter parseable (Fund_Data fund))))]),
                Headers = jsonHeaders\<rparr>, None))"
proof -
  let ?r = "request\<lparr>QueryStringParameters :=
              (QueryStringParameters request)(''start'' := None, ''end'' := None)\<rparr>"
  have v: "validateAndParseDates (clock w) (param request ''start'') (param request ''end'') =
             Inr (zeroTime, zeroTime)"
    using validate_year_one[OF assms(1)] by (simp add: assms(2,3))
  have p: "param ?r ''mutualFundID'' = param request ''mutualFundID''"
      "param ?r ''start'' = []" "param ?r ''end'' = []"
    by (simp_all add: param_def)
  have h: "Handler w request = Handler w ?r"
    by (rule Handler_cong) (simp_all add: p v validate_none_given)
  show ?thesis
    using v h Handler_unfiltered[OF _ v] by blast
qed

theorem C9_year_one_range_acts_as_no_range_witness:
  "validateAndParseDates noon ''01-01-0001'' ''01-01-0001'' = Inr (zeroTime, zeroTime) \<and>
   Handler serving (query ''119598'' ''01-01-0001'' ''01-01-0001'') =
     (\<lparr>StatusCode = 200,
       Body = Encoded (JObject
         [(''meta'', meta_json exampleMeta),
          (''data'', JArray
             [point_json \<lparr>Date = ''15-01-2023'', Nav = ''10.5''\<rparr>,
              point_json \<lparr>Date = ''28-02-2023'', Nav = ''11.0''\<rparr>,
              point_json \<lparr>Date = ''02-01-2023'', Nav = ''10.1''\<rparr>])]),
       Headers = jsonHeaders\<rparr>, None)"
proof -
  let ?q = "query ''119598'' ''01-01-0001'' ''01-01-0001''"
  have n: "\<not> After zeroTime (clock serving)"
    by (simp add: After_def zeroTime_def serving_def noon_def)
  have c: "clock serving = noon"
    by (simp add: serving_def)
  note t = C9_year_one_range_acts_as_no_range[OF n, of ?q, unfolded param_query, OF refl refl]
  have 1: "validateAndParseDates noon ''01-01-0001'' ''01-01-0001'' = Inr (zeroTime, zeroTime)"
    using t[THEN conjunct1] by (simp add: c)
  have 2: "Handler serving ?q =
     (\<lparr>StatusCode = 200,
       Body = Encoded (JObject
         [(''meta'', meta_json (Fund_Meta exampleFund)),
          (''data'', data_json (map toDataPoint (filter parseable (Fund_Data exampleFund))))]),
       Headers = jsonHeaders\<rparr>, None)"
    using t[THEN conjunct2, THEN conjunct2, rule_format, of exampleFund]
    by (simp add: isValidInteger_119598 fetch_serving_119598 exampleMeta_nonempty Fund_Meta_exampleFund)
  show ?thesis
    using 1 2
    by (simp add: example_parseable Fund_Meta_exampleFund data_json_def toDataPoint_def)
qed



end
